theory Spec2Isabelle
  imports Complex_Main
begin

section \<open>Conventions\<close>

text \<open>
  The repository holds two complete versions of the aggressive-flow monitor: the
  "MVP Enhanced" program (the unnamed source file) and the "STABLE" program
  (\<^verbatim>\<open>index.js\<close>). Both are embedded below. Names are those of the source; where
  the two programs use the same class and method name, the definition taken from
  \<^verbatim>\<open>index.js\<close> carries the suffix \<open>_stable\<close> and the one taken from the unnamed
  file the suffix \<open>_mvp\<close>.

  JavaScript numbers are idealised as reals: no rounding, no NaN, no infinities.
  Every \<^verbatim>\<open>Date.now()\<close> the source reads is a parameter of the embedded function.
  \<^verbatim>\<open>null\<close> is \<open>None\<close>.
\<close>

datatype side = Buy | Sell

text \<open>JavaScript's conversion of \<^verbatim>\<open>null\<close> to the number 0 in arithmetic.\<close>

fun num :: "real option \<Rightarrow> real" where
  "num None = 0"
| "num (Some x) = x"

text \<open>Truthiness of a nullable number: \<^verbatim>\<open>null\<close> and 0 are falsy.\<close>

fun truthy :: "real option \<Rightarrow> bool" where
  "truthy None = False"
| "truthy (Some x) = (x \<noteq> 0)"

section \<open>MVP Enhanced program: SymbolState\<close>

record trade =
  timestamp :: real
  price :: real
  buyVol :: real
  sellVol :: real

record SymbolState =
  symbol :: string
  windowMs :: real
  trades :: "trade list"
  firstPrice :: "real option"
  lastPrice :: "real option"
  highPrice :: "real option"
  lowPrice :: "real option"

text \<open>\<^verbatim>\<open>new SymbolState(symbol, windowSeconds)\<close>\<close>

definition SymbolState_new :: "string \<Rightarrow> real \<Rightarrow> SymbolState" where
  "SymbolState_new sy windowSeconds =
     \<lparr>symbol = sy, windowMs = windowSeconds * 1000, trades = [],
      firstPrice = None, lastPrice = None, highPrice = None, lowPrice = None\<rparr>"

text \<open>
  \<^verbatim>\<open>cleanup(currentTime)\<close>: keeps the trades with \<^verbatim>\<open>timestamp >= cutoff\<close> and
  recomputes first, high and low price from the survivors. \<^verbatim>\<open>Math.max(...xs)\<close> over
  the non-empty survivor list is a fold of \<open>max\<close>.
\<close>

definition cleanup :: "real \<Rightarrow> SymbolState \<Rightarrow> SymbolState" where
  "cleanup currentTime s =
     (let cutoff = currentTime - windowMs s;
          ts = filter (\<lambda>t. timestamp t \<ge> cutoff) (trades s)
      in case ts of
           t # rest \<Rightarrow>
             s\<lparr>trades := ts,
               firstPrice := Some (price t),
               highPrice := Some (fold max (map price rest) (price t)),
               lowPrice := Some (fold min (map price rest) (price t))\<rparr>
         | [] \<Rightarrow>
             s\<lparr>trades := ts, firstPrice := None, highPrice := None, lowPrice := None\<rparr>)"

text \<open>\<^verbatim>\<open>addTrade(timestamp, price, quantity, isBuyerMaker)\<close>\<close>

definition addTrade :: "real \<Rightarrow> real \<Rightarrow> real \<Rightarrow> bool \<Rightarrow> SymbolState \<Rightarrow> SymbolState" where
  "addTrade ts p quantity isBuyerMaker s =
     (let volume = p * quantity;
          tr = \<lparr>timestamp = ts, price = p,
                buyVol = (if isBuyerMaker then 0 else volume),
                sellVol = (if isBuyerMaker then volume else 0)\<rparr>;
          s1 = s\<lparr>trades := trades s @ [tr], lastPrice := Some p\<rparr>;
          s2 = (if firstPrice s = None
                then s1\<lparr>firstPrice := Some p, highPrice := Some p, lowPrice := Some p\<rparr>
                else s1\<lparr>highPrice := Some (max (num (highPrice s)) p),
                        lowPrice := Some (min (num (lowPrice s)) p)\<rparr>)
      in cleanup ts s2)"

record stats =
  buyVolume :: real
  sellVolume :: real
  totalVolume :: real
  dominantSide :: side
  dominance :: real
  priceChange :: real
  priceRange :: real
  duration :: real
  tradeCount :: nat
  stats_lastPrice :: "real option"
  stats_highPrice :: "real option"
  stats_lowPrice :: "real option"

text \<open>
  \<^verbatim>\<open>getStats()\<close>. The \<^verbatim>\<open>for\<close> loop that accumulates the two volumes is a fold
  from 0 over the trades in order.
\<close>

definition getStats :: "SymbolState \<Rightarrow> stats option" where
  "getStats s =
     (if length (trades s) = 0 then None
      else
        let buyV = fold (\<lambda>t acc. acc + buyVol t) (trades s) 0;
            sellV = fold (\<lambda>t acc. acc + sellVol t) (trades s) 0;
            total = buyV + sellV
        in if total = 0 then None
           else
             let buyDominance = (buyV / total) * 100;
                 sellDominance = (sellV / total) * 100
             in Some
                 \<lparr>buyVolume = buyV,
                  sellVolume = sellV,
                  totalVolume = total,
                  dominantSide = (if buyV > sellV then Buy else Sell),
                  dominance = max buyDominance sellDominance,
                  priceChange =
                    (if truthy (firstPrice s)
                     then ((num (lastPrice s) - num (firstPrice s)) / num (firstPrice s)) * 100
                     else 0),
                  priceRange =
                    (if truthy (highPrice s) \<and> truthy (lowPrice s)
                     then num (highPrice s) - num (lowPrice s)
                     else 0),
                  duration = (timestamp (last (trades s)) - timestamp (hd (trades s))) / 1000,
                  tradeCount = length (trades s),
                  stats_lastPrice = lastPrice s,
                  stats_highPrice = highPrice s,
                  stats_lowPrice = lowPrice s\<rparr>)"

text \<open>\<^verbatim>\<open>reset()\<close>\<close>

definition reset :: "SymbolState \<Rightarrow> SymbolState" where
  "reset s = s\<lparr>trades := [], firstPrice := None, lastPrice := None,
               highPrice := None, lowPrice := None\<rparr>"

text \<open>
  A trade event as the stream handler passes it on: timestamp \<^verbatim>\<open>T\<close>, price
  \<^verbatim>\<open>parseFloat(p)\<close>, quantity \<^verbatim>\<open>parseFloat(q)\<close>, maker flag \<^verbatim>\<open>m\<close>.
\<close>

record event =
  ev_T :: real
  ev_p :: real
  ev_q :: real
  ev_m :: bool

text \<open>Feeding a sequence of events of one symbol, in arrival order.\<close>

definition feed :: "event list \<Rightarrow> SymbolState \<Rightarrow> SymbolState" where
  "feed evs s = fold (\<lambda>e. addTrade (ev_T e) (ev_p e) (ev_q e) (ev_m e)) evs s"


section \<open>MVP Enhanced program: TradeAggregator\<close>

record TradeAggregator_mvp =
  windowSeconds :: real
  states :: "string \<rightharpoonup> SymbolState"

definition TradeAggregator_new_mvp :: "real \<Rightarrow> TradeAggregator_mvp" where
  "TradeAggregator_new_mvp ws = \<lparr>windowSeconds = ws, states = Map.empty\<rparr>"

text \<open>\<^verbatim>\<open>addTrade(symbol, timestamp, price, quantity, isBuyerMaker)\<close>\<close>

definition addTrade_mvp ::
  "string \<Rightarrow> real \<Rightarrow> real \<Rightarrow> real \<Rightarrow> bool \<Rightarrow> TradeAggregator_mvp \<Rightarrow> TradeAggregator_mvp" where
  "addTrade_mvp sy ts p quantity isBuyerMaker agg =
     (let st = (case states agg sy of
                  None \<Rightarrow> SymbolState_new sy (windowSeconds agg)
                | Some st0 \<Rightarrow> st0)
      in agg\<lparr>states := (states agg)(sy \<mapsto> addTrade ts p quantity isBuyerMaker st)\<rparr>)"

text \<open>\<^verbatim>\<open>getStats(symbol)\<close>\<close>

definition getStats_mvp :: "string \<Rightarrow> TradeAggregator_mvp \<Rightarrow> stats option" where
  "getStats_mvp sy agg = (case states agg sy of None \<Rightarrow> None | Some st \<Rightarrow> getStats st)"

text \<open>\<^verbatim>\<open>resetSymbol(symbol)\<close>\<close>

definition resetSymbol_mvp :: "string \<Rightarrow> TradeAggregator_mvp \<Rightarrow> TradeAggregator_mvp" where
  "resetSymbol_mvp sy agg =
     (case states agg sy of
        None \<Rightarrow> agg
      | Some st \<Rightarrow> agg\<lparr>states := (states agg)(sy \<mapsto> reset st)\<rparr>)"

text \<open>
  The stream handlers call the aggregator once per received message; a run of the
  aggregator is the list of (symbol, event) pairs in arrival order.
\<close>

definition feed_mvp :: "(string \<times> event) list \<Rightarrow> TradeAggregator_mvp \<Rightarrow> TradeAggregator_mvp" where
  "feed_mvp evs agg =
     fold (\<lambda>(sy, e). addTrade_mvp sy (ev_T e) (ev_p e) (ev_q e) (ev_m e)) evs agg"

text \<open>The events of one symbol within a run.\<close>

definition events_of :: "string \<Rightarrow> (string \<times> event) list \<Rightarrow> event list" where
  "events_of sy evs = map snd (filter (\<lambda>x. fst x = sy) evs)"

section \<open>STABLE program: TradeAggregator\<close>

text \<open>
  An entry of \<^verbatim>\<open>buys\<close> or \<^verbatim>\<open>sells\<close>: \<^verbatim>\<open>{ price: trade.p, qty: trade.q, time: trade.T }\<close>.
  The program stores price and quantity as the feed's decimal strings and applies
  \<^verbatim>\<open>parseFloat\<close> when it reads them; the model stores the parsed numbers.
\<close>

record tick =
  tick_price :: real
  tick_qty :: real
  tick_time :: real

record symbolData =
  buys :: "tick list"
  sells :: "tick list"
  lastUpdate :: real

record TradeAggregator_stable =
  windowSeconds_stable :: real
  trades_stable :: "string \<rightharpoonup> symbolData"
  totalTradeCount :: nat

definition TradeAggregator_new_stable :: "real \<Rightarrow> TradeAggregator_stable" where
  "TradeAggregator_new_stable ws =
     \<lparr>windowSeconds_stable = ws, trades_stable = Map.empty, totalTradeCount = 0\<rparr>"

text \<open>
  \<^verbatim>\<open>addTrade(symbol, trade)\<close>; \<open>now\<close> is the value of \<^verbatim>\<open>Date.now()\<close>. Only the list
  of the side the trade belongs to is filtered.
\<close>

definition addTrade_stable ::
  "string \<Rightarrow> event \<Rightarrow> real \<Rightarrow> TradeAggregator_stable \<Rightarrow> TradeAggregator_stable" where
  "addTrade_stable sy tr now agg =
     (let data = (case trades_stable agg sy of
                    None \<Rightarrow> \<lparr>buys = [], sells = [], lastUpdate = now\<rparr>
                  | Some d \<Rightarrow> d);
          cutoff = now - (windowSeconds_stable agg * 1000);
          entry = \<lparr>tick_price = ev_p tr, tick_qty = ev_q tr, tick_time = ev_T tr\<rparr>;
          data1 = (if ev_m tr
                   then data\<lparr>sells := filter (\<lambda>t. tick_time t > cutoff) (sells data @ [entry])\<rparr>
                   else data\<lparr>buys := filter (\<lambda>t. tick_time t > cutoff) (buys data @ [entry])\<rparr>);
          data2 = data1\<lparr>lastUpdate := now\<rparr>
      in agg\<lparr>trades_stable := (trades_stable agg)(sy \<mapsto> data2),
             totalTradeCount := totalTradeCount agg + 1\<rparr>)"

record stats_stable =
  ss_symbol :: string
  totalVolumeUSD :: real
  buyVolumeUSD :: real
  sellVolumeUSD :: real
  buyDominance :: real
  sellDominance :: real
  ss_dominantSide :: side
  ss_priceChange :: real
  ss_tradeCount :: nat
  ss_windowSeconds :: real

text \<open>
  \<^verbatim>\<open>getStats(symbol)\<close>; \<open>now\<close> is the value of \<^verbatim>\<open>Date.now()\<close>. The price list is
  non-empty where \<^verbatim>\<open>Math.max\<close> and \<^verbatim>\<open>Math.min\<close> are reached, so its empty case
  below is never taken.
\<close>

definition getStats_stable :: "string \<Rightarrow> real \<Rightarrow> TradeAggregator_stable \<Rightarrow> stats_stable option" where
  "getStats_stable sy now agg =
     (case trades_stable agg sy of
        None \<Rightarrow> None
      | Some data \<Rightarrow>
          let cutoff = now - (windowSeconds_stable agg * 1000);
              activeBuys = filter (\<lambda>t. tick_time t > cutoff) (buys data);
              activeSells = filter (\<lambda>t. tick_time t > cutoff) (sells data)
          in if length activeBuys = 0 \<and> length activeSells = 0 then None
             else
               let buyV = fold (\<lambda>t acc. acc + tick_price t * tick_qty t) activeBuys 0;
                   sellV = fold (\<lambda>t acc. acc + tick_price t * tick_qty t) activeSells 0;
                   total = buyV + sellV
               in if total = 0 then None
                  else
                    let buyDom = (buyV / total) * 100;
                        sellDom = (sellV / total) * 100;
                        allPrices = map tick_price (activeBuys @ activeSells)
                    in (case allPrices of
                          [] \<Rightarrow> None
                        | x # xs \<Rightarrow>
                            let maxPrice = fold max xs x;
                                minPrice = fold min xs x
                            in Some
                                \<lparr>ss_symbol = sy,
                                 totalVolumeUSD = total,
                                 buyVolumeUSD = buyV,
                                 sellVolumeUSD = sellV,
                                 buyDominance = buyDom,
                                 sellDominance = sellDom,
                                 ss_dominantSide = (if buyDom > sellDom then Buy else Sell),
                                 ss_priceChange = ((maxPrice - minPrice) / minPrice) * 100,
                                 ss_tradeCount = length activeBuys + length activeSells,
                                 ss_windowSeconds = windowSeconds_stable agg\<rparr>))"

text \<open>
  A run of the STABLE aggregator: each message arrives with the wall-clock time at
  which \<^verbatim>\<open>addTrade\<close> handles it.
\<close>

definition feed_stable ::
  "(string \<times> event \<times> real) list \<Rightarrow> TradeAggregator_stable \<Rightarrow> TradeAggregator_stable" where
  "feed_stable evs agg = fold (\<lambda>(sy, e, now). addTrade_stable sy e now) evs agg"

text \<open>
  The dominance figure of a STABLE snapshot, as \<^verbatim>\<open>checkSignal\<close> and \<^verbatim>\<open>sendAlert\<close>
  read it: \<^verbatim>\<open>dominantSide === 'BUY' ? buyDominance : sellDominance\<close>.
\<close>

definition dominance_stable :: "stats_stable \<Rightarrow> real" where
  "dominance_stable st =
     (if ss_dominantSide st = Buy then buyDominance st else sellDominance st)"

section \<open>The window, in the words of the specification\<close>

text \<open>
  The trades of a sequence whose timestamp is at least the latest-seen timestamp minus
  the window, and the sum of price times quantity over them.
\<close>

definition spec_window :: "real \<Rightarrow> event list \<Rightarrow> event list" where
  "spec_window w evs =
     (case evs of [] \<Rightarrow> [] | _ \<Rightarrow> filter (\<lambda>e. ev_T e \<ge> ev_T (last evs) - w) evs)"

definition spec_totalVolume :: "real \<Rightarrow> event list \<Rightarrow> real" where
  "spec_totalVolume w evs = sum_list (map (\<lambda>e. ev_p e * ev_q e) (spec_window w evs))"

text \<open>The trades whose timestamp is later than a wall-clock cutoff.\<close>

definition wallclock_window :: "real \<Rightarrow> event list \<Rightarrow> event list" where
  "wallclock_window cutoff evs = filter (\<lambda>e. ev_T e > cutoff) evs"

section \<open>Auxiliary notions for the aggregators\<close>

text \<open>The entry \<^verbatim>\<open>addTrade\<close> of \<open>SymbolState\<close> appends for an event.\<close>

definition trade_of :: "event \<Rightarrow> trade" where
  "trade_of e = \<lparr>timestamp = ev_T e, price = ev_p e,
                 buyVol = (if ev_m e then 0 else ev_p e * ev_q e),
                 sellVol = (if ev_m e then ev_p e * ev_q e else 0)\<rparr>"

text \<open>The events of one symbol within a run of the STABLE aggregator.\<close>

definition events_of_stable :: "string \<Rightarrow> (string \<times> event \<times> real) list \<Rightarrow> event list" where
  "events_of_stable sy evs = map (\<lambda>x. fst (snd x)) (filter (\<lambda>x. fst x = sy) evs)"

text \<open>The entry the STABLE \<^verbatim>\<open>addTrade\<close> appends for an event.\<close>

definition tick_of :: "event \<Rightarrow> tick" where
  "tick_of e = \<lparr>tick_price = ev_p e, tick_qty = ev_q e, tick_time = ev_T e\<rparr>"

text \<open>The entries later than a cutoff, and the notional value of a list of entries.\<close>

definition active :: "real \<Rightarrow> tick list \<Rightarrow> tick list" where
  "active cutoff ts = filter (\<lambda>t. tick_time t > cutoff) ts"

definition notional :: "tick list \<Rightarrow> real" where
  "notional ts = sum_list (map (\<lambda>t. tick_price t * tick_qty t) ts)"

text \<open>The two lists the STABLE aggregator holds for a symbol; empty before its first trade.\<close>

definition buys_of :: "TradeAggregator_stable \<Rightarrow> string \<Rightarrow> tick list" where
  "buys_of agg sy = (case trades_stable agg sy of None \<Rightarrow> [] | Some d \<Rightarrow> buys d)"

definition sells_of :: "TradeAggregator_stable \<Rightarrow> string \<Rightarrow> tick list" where
  "sells_of agg sy = (case trades_stable agg sy of None \<Rightarrow> [] | Some d \<Rightarrow> sells d)"

text \<open>
  The price change in the words of the specification: last price minus first price,
  over the first price, times 100.
\<close>

definition spec_priceChange :: "real \<Rightarrow> real \<Rightarrow> real" where
  "spec_priceChange firstP lastP = (lastP - firstP) / firstP * 100"

section \<open>Configuration store\<close>

record symbolConfig =
  minVolumeUSD :: real
  minDominance :: real
  minPriceChange :: real
  cooldownMinutes :: real
  enabled :: bool

text \<open>\<^verbatim>\<open>CONFIG.SYMBOL_CONFIGS\<close>, the same table in both programs.\<close>

definition SYMBOL_CONFIGS :: "(string \<times> symbolConfig) list" where
  "SYMBOL_CONFIGS =
     [(''ADAUSDT'', \<lparr>minVolumeUSD = 1000000, minDominance = 65, minPriceChange = 6 / 10,
                     cooldownMinutes = 5, enabled = True\<rparr>),
      (''TAOUSDT'', \<lparr>minVolumeUSD = 1500000, minDominance = 65, minPriceChange = 6 / 10,
                     cooldownMinutes = 5, enabled = True\<rparr>),
      (''HYPEUSDT'', \<lparr>minVolumeUSD = 5000000, minDominance = 70, minPriceChange = 8 / 10,
                      cooldownMinutes = 5, enabled = True\<rparr>),
      (''PEPEUSDT'', \<lparr>minVolumeUSD = 1000000, minDominance = 65, minPriceChange = 6 / 10,
                      cooldownMinutes = 5, enabled = True\<rparr>),
      (''WIFUSDT'', \<lparr>minVolumeUSD = 1500000, minDominance = 65, minPriceChange = 5 / 10,
                     cooldownMinutes = 5, enabled = True\<rparr>),
      (''BONKUSDT'', \<lparr>minVolumeUSD = 1000000, minDominance = 65, minPriceChange = 5 / 10,
                      cooldownMinutes = 5, enabled = True\<rparr>),
      (''DOGEUSDT'', \<lparr>minVolumeUSD = 5000000, minDominance = 70, minPriceChange = 75 / 100,
                      cooldownMinutes = 5, enabled = True\<rparr>),
      (''XRPUSDT'', \<lparr>minVolumeUSD = 5000000, minDominance = 70, minPriceChange = 1,
                     cooldownMinutes = 5, enabled = True\<rparr>),
      (''UNIUSDT'', \<lparr>minVolumeUSD = 1000000, minDominance = 65, minPriceChange = 5 / 10,
                     cooldownMinutes = 5, enabled = True\<rparr>)]"

text \<open>
  A filter's parameters are a JavaScript object: a finite map from property names to
  values. A value is a number, a boolean or a list of numbers.
\<close>

datatype jsval = JNum real | JBool bool | JNums "real list"

type_synonym filterParams = "string \<rightharpoonup> jsval"

text \<open>\<^verbatim>\<open>CONFIG.ADVANCED_FILTERS\<close> of the MVP Enhanced program.\<close>

definition ADVANCED_FILTERS_mvp :: "(string \<times> filterParams) list" where
  "ADVANCED_FILTERS_mvp =
     [(''aggressionDecay'',
         map_of [(''enabled'', JBool True), (''lookbackMinutes'', JNum 3),
                 (''decayThreshold'', JNum (85 / 100)), (''minCandles'', JNum 2)]),
      (''stopCluster'',
         map_of [(''enabled'', JBool True), (''maxStops'', JNum 2),
                 (''timeWindowMinutes'', JNum 30), (''pauseMinutes'', JNum 30)]),
      (''timeBased'',
         map_of [(''enabled'', JBool True), (''blockedDays'', JNums []), (''blockedHours'', JNums []),
                 (''allowedHoursStart'', JNum 6), (''allowedHoursEnd'', JNum 18)]),
      (''btcVolatility'',
         map_of [(''enabled'', JBool True), (''checkIntervalMinutes'', JNum 1),
                 (''timeframeMinutes'', JNum 10), (''thresholdPercent'', JNum 2),
                 (''pauseMinutes'', JNum 15)])]"

text \<open>\<^verbatim>\<open>CONFIG.ADVANCED_FILTERS\<close> of the STABLE program.\<close>

definition ADVANCED_FILTERS_stable :: "(string \<times> filterParams) list" where
  "ADVANCED_FILTERS_stable =
     [(''aggressionDecay'',
         map_of [(''enabled'', JBool True), (''lookbackMinutes'', JNum 3),
                 (''decayThreshold'', JNum (85 / 100)), (''minCandles'', JNum 2)]),
      (''stopCluster'',
         map_of [(''enabled'', JBool True), (''maxStops'', JNum 2),
                 (''timeWindowMinutes'', JNum 30), (''pauseMinutes'', JNum 30)]),
      (''timeBased'',
         map_of [(''enabled'', JBool True), (''blockedDays'', JNums []), (''blockedHours'', JNums []),
                 (''allowedHoursStart'', JNum 6), (''allowedHoursEnd'', JNum 18)]),
      (''btcVolatility'',
         map_of [(''enabled'', JBool True), (''checkIntervalMinutes'', JNum 5),
                 (''thresholdPercent'', JNum 2), (''pauseMinutes'', JNum 15)])]"

text \<open>
  The store: \<^verbatim>\<open>RuntimeConfig\<close> (\<^verbatim>\<open>symbolConfigs\<close>, \<^verbatim>\<open>advancedFilters\<close>) in the
  MVP Enhanced program, \<^verbatim>\<open>runtimeState\<close> (\<^verbatim>\<open>symbols\<close>, \<^verbatim>\<open>filters\<close>) in the STABLE
  program.
\<close>

record RuntimeConfig =
  symbolConfigs :: "string \<rightharpoonup> symbolConfig"
  advancedFilters :: "string \<rightharpoonup> filterParams"

definition RuntimeConfig_new ::
  "(string \<times> symbolConfig) list \<Rightarrow> (string \<times> filterParams) list \<Rightarrow> RuntimeConfig" where
  "RuntimeConfig_new initialConfig filters =
     \<lparr>symbolConfigs = map_of initialConfig, advancedFilters = map_of filters\<rparr>"

text \<open>\<^verbatim>\<open>initRuntimeState()\<close> of the STABLE program builds the same store.\<close>

definition initRuntimeState :: RuntimeConfig where
  "initRuntimeState = RuntimeConfig_new SYMBOL_CONFIGS ADVANCED_FILTERS_stable"

text \<open>\<^verbatim>\<open>get(symbol)\<close> and \<^verbatim>\<open>getSymbolConfig(symbol)\<close>\<close>

definition getSymbolConfig :: "RuntimeConfig \<Rightarrow> string \<Rightarrow> symbolConfig option" where
  "getSymbolConfig rc sy = symbolConfigs rc sy"

text \<open>
  The errors the setters throw, each carrying what its message quotes:
  \<^verbatim>\<open>Symbol ${symbol} not found\<close>, \<^verbatim>\<open>Invalid parameter: ${param}\<close>,
  \<^verbatim>\<open>Invalid value: ${value}\<close>, \<^verbatim>\<open>${param} must be >= 0\<close>,
  \<^verbatim>\<open>minDominance must be between 50 and 100\<close>, \<^verbatim>\<open>Filter ${filterName} not found\<close>.
\<close>

datatype config_error =
    SymbolNotFound string
  | InvalidParameter string
  | InvalidValue string
  | MustBeNonNegative string
  | MustBeBetween50And100 string
  | FilterNotFound string

definition validParams :: "string list" where
  "validParams = [''minVolumeUSD'', ''minDominance'', ''minPriceChange'', ''cooldownMinutes'']"

text \<open>Reading and writing \<^verbatim>\<open>config[param]\<close> for one of the four valid parameters.\<close>

definition param_get :: "string \<Rightarrow> symbolConfig \<Rightarrow> real" where
  "param_get param c =
     (if param = ''minVolumeUSD'' then minVolumeUSD c
      else if param = ''minDominance'' then minDominance c
      else if param = ''minPriceChange'' then minPriceChange c
      else cooldownMinutes c)"

definition param_set :: "string \<Rightarrow> real \<Rightarrow> symbolConfig \<Rightarrow> symbolConfig" where
  "param_set param v c =
     (if param = ''minVolumeUSD'' then c\<lparr>minVolumeUSD := v\<rparr>
      else if param = ''minDominance'' then c\<lparr>minDominance := v\<rparr>
      else if param = ''minPriceChange'' then c\<lparr>minPriceChange := v\<rparr>
      else c\<lparr>cooldownMinutes := v\<rparr>)"

text \<open>
  \<^verbatim>\<open>RuntimeConfig.set(symbol, param, value)\<close> of the MVP Enhanced program. \<open>value\<close> is
  the text received and \<open>numValue\<close> is \<^verbatim>\<open>parseFloat(value)\<close>, with \<open>None\<close> for NaN.
  The result is the store after the call and either the error thrown or the pair
  \<^verbatim>\<open>{ oldValue, newValue }\<close> returned.
\<close>

definition RuntimeConfig_set ::
  "RuntimeConfig \<Rightarrow> string \<Rightarrow> string \<Rightarrow> string \<Rightarrow> real option
     \<Rightarrow> RuntimeConfig \<times> (config_error + real \<times> real)" where
  "RuntimeConfig_set rc sy param value numValue =
     (case symbolConfigs rc sy of
        None \<Rightarrow> (rc, Inl (SymbolNotFound sy))
      | Some c \<Rightarrow>
          if param \<notin> set validParams then (rc, Inl (InvalidParameter param))
          else (case numValue of
                  None \<Rightarrow> (rc, Inl (InvalidValue value))
                | Some n \<Rightarrow>
                    if param = ''minVolumeUSD'' \<and> n < 0
                      then (rc, Inl (MustBeNonNegative ''minVolumeUSD''))
                    else if param = ''minDominance'' \<and> (n < 50 \<or> n > 100)
                      then (rc, Inl (MustBeBetween50And100 ''minDominance''))
                    else if param = ''minPriceChange'' \<and> n < 0
                      then (rc, Inl (MustBeNonNegative ''minPriceChange''))
                    else if param = ''cooldownMinutes'' \<and> n < 0
                      then (rc, Inl (MustBeNonNegative ''cooldownMinutes''))
                    else
                      let oldValue = param_get param c
                      in (rc\<lparr>symbolConfigs := (symbolConfigs rc)(sy \<mapsto> param_set param n c)\<rparr>,
                          Inr (oldValue, n))))"

text \<open>\<^verbatim>\<open>enable(symbol)\<close> and \<^verbatim>\<open>disable(symbol)\<close>; they return nothing.\<close>

definition RuntimeConfig_enable :: "RuntimeConfig \<Rightarrow> string \<Rightarrow> RuntimeConfig \<times> (config_error + unit)" where
  "RuntimeConfig_enable rc sy =
     (case symbolConfigs rc sy of
        None \<Rightarrow> (rc, Inl (SymbolNotFound sy))
      | Some c \<Rightarrow> (rc\<lparr>symbolConfigs := (symbolConfigs rc)(sy \<mapsto> c\<lparr>enabled := True\<rparr>)\<rparr>, Inr ()))"



text \<open>
  \<^verbatim>\<open>setSymbolParam(symbol, param, value)\<close> of the STABLE program: no range check, and
  nothing is returned.
\<close>

definition setSymbolParam ::
  "RuntimeConfig \<Rightarrow> string \<Rightarrow> string \<Rightarrow> string \<Rightarrow> real option
     \<Rightarrow> RuntimeConfig \<times> (config_error + unit)" where
  "setSymbolParam rc sy param value numValue =
     (case symbolConfigs rc sy of
        None \<Rightarrow> (rc, Inl (SymbolNotFound sy))
      | Some c \<Rightarrow>
          if param \<notin> set validParams then (rc, Inl (InvalidParameter param))
          else (case numValue of
                  None \<Rightarrow> (rc, Inl (InvalidValue value))
                | Some n \<Rightarrow>
                    (rc\<lparr>symbolConfigs := (symbolConfigs rc)(sy \<mapsto> param_set param n c)\<rparr>, Inr ())))"




text \<open>
  What an error names: the symbol, parameter, value or filter its message quotes.
\<close>

fun named :: "config_error \<Rightarrow> string" where
  "named (SymbolNotFound s) = s"
| "named (InvalidParameter p) = p"
| "named (InvalidValue v) = v"
| "named (MustBeNonNegative p) = p"
| "named (MustBeBetween50And100 p) = p"
| "named (FilterNotFound f) = f"



section \<open>Cooldown managers\<close>

text \<open>
  The dominant side as the text each program stores in its snapshots: \<^verbatim>\<open>'buy'\<close> and
  \<^verbatim>\<open>'sell'\<close> in the MVP Enhanced program, \<^verbatim>\<open>'BUY'\<close> and \<^verbatim>\<open>'SELL'\<close> in the
  STABLE program. The key of a cooldown entry is \<^verbatim>\<open>`${symbol}_${side}`\<close>.
\<close>

fun side_mvp :: "side \<Rightarrow> string" where
  "side_mvp Buy = ''buy''"
| "side_mvp Sell = ''sell''"

fun side_stable :: "side \<Rightarrow> string" where
  "side_stable Buy = ''BUY''"
| "side_stable Sell = ''SELL''"

record CooldownManager_mvp =
  lastAlerts :: "string \<rightharpoonup> real"

text \<open>
  \<^verbatim>\<open>canAlert(symbol, stats)\<close> of the MVP Enhanced program; \<open>now\<close> is \<^verbatim>\<open>Date.now()\<close>.
  \<^verbatim>\<open>!lastAlert\<close> holds for a missing entry and for the number 0.
\<close>

definition canAlert :: "RuntimeConfig \<Rightarrow> CooldownManager_mvp \<Rightarrow> string \<Rightarrow> stats \<Rightarrow> real \<Rightarrow> bool" where
  "canAlert rc cm sy st now =
     (case getSymbolConfig rc sy of
        None \<Rightarrow> False
      | Some config \<Rightarrow>
          let key = sy @ ''_'' @ side_mvp (dominantSide st)
          in (case lastAlerts cm key of
                None \<Rightarrow> True
              | Some lastAlert \<Rightarrow>
                  if lastAlert = 0 then True
                  else
                    let cooldownMs = cooldownMinutes config * 60 * 1000;
                        elapsed = now - lastAlert
                    in elapsed \<ge> cooldownMs))"

text \<open>\<^verbatim>\<open>recordAlert(symbol, stats)\<close> of the MVP Enhanced program.\<close>

definition recordAlert_mvp :: "CooldownManager_mvp \<Rightarrow> string \<Rightarrow> stats \<Rightarrow> real \<Rightarrow> CooldownManager_mvp" where
  "recordAlert_mvp cm sy st now =
     (let key = sy @ ''_'' @ side_mvp (dominantSide st)
      in cm\<lparr>lastAlerts := (lastAlerts cm)(key \<mapsto> now)\<rparr>)"

record CooldownManager_stable =
  cooldowns :: "string \<rightharpoonup> real"

text \<open>
  \<^verbatim>\<open>isInCooldown(symbol, side)\<close> of the STABLE program returns the answer and deletes
  an entry whose deadline has passed.
\<close>

definition isInCooldown ::
  "CooldownManager_stable \<Rightarrow> string \<Rightarrow> side \<Rightarrow> real \<Rightarrow> bool \<times> CooldownManager_stable" where
  "isInCooldown cm sy sd now =
     (let key = sy @ ''_'' @ side_stable sd
      in (case cooldowns cm key of
            None \<Rightarrow> (False, cm)
          | Some cooldownUntil \<Rightarrow>
              if cooldownUntil = 0 then (False, cm)
              else if now < cooldownUntil then (True, cm)
              else (False, cm\<lparr>cooldowns := (cooldowns cm)(key := None)\<rparr>)))"

text \<open>
  \<^verbatim>\<open>recordAlert(symbol, stats)\<close> of the STABLE program stores the deadline, computed
  from the configuration it reads when the alert is recorded.
\<close>

definition recordAlert_stable ::
  "RuntimeConfig \<Rightarrow> CooldownManager_stable \<Rightarrow> string \<Rightarrow> stats_stable \<Rightarrow> real
     \<Rightarrow> CooldownManager_stable" where
  "recordAlert_stable rc cm sy st now =
     (case getSymbolConfig rc sy of
        None \<Rightarrow> cm
      | Some config \<Rightarrow>
          let key = sy @ ''_'' @ side_stable (ss_dominantSide st);
              cooldownUntil = now + (cooldownMinutes config * 60 * 1000)
          in cm\<lparr>cooldowns := (cooldowns cm)(key \<mapsto> cooldownUntil)\<rparr>)"

text \<open>
  Eligibility in the words of the specification, for a check at time \<open>t\<close> not before
  the alert recorded at time \<open>T\<close>: true exactly from \<open>T\<close> plus the cooldown on.
\<close>

definition spec_isEligible :: "real \<Rightarrow> real \<Rightarrow> real \<Rightarrow> bool" where
  "spec_isEligible T cooldownMins t = (T + cooldownMins * 60 * 1000 \<le> t)"

section \<open>Filter configurations\<close>

text \<open>
  Each filter reads its parameters with \<^verbatim>\<open>getFilter(name)\<close>; the records below hold the
  fields the filters read, with the defaults of \<^verbatim>\<open>CONFIG.ADVANCED_FILTERS\<close>.
\<close>

record aggressionDecay_config =
  ad_enabled :: bool
  lookbackMinutes :: real
  decayThreshold :: real
  minCandles :: real

record stopCluster_config =
  sc_enabled :: bool
  maxStops :: real
  timeWindowMinutes :: real
  sc_pauseMinutes :: real

record timeBased_config =
  tb_enabled :: bool
  blockedDays :: "real list"
  blockedHours :: "real list"
  allowedHoursStart :: real
  allowedHoursEnd :: real

record btcVolatility_config =
  btc_enabled :: bool
  checkIntervalMinutes :: real
  timeframeMinutes :: real
  thresholdPercent :: real
  btc_pauseMinutes :: real

definition aggressionDecay_default :: aggressionDecay_config where
  "aggressionDecay_default =
     \<lparr>ad_enabled = True, lookbackMinutes = 3, decayThreshold = 85 / 100, minCandles = 2\<rparr>"

definition stopCluster_default :: stopCluster_config where
  "stopCluster_default =
     \<lparr>sc_enabled = True, maxStops = 2, timeWindowMinutes = 30, sc_pauseMinutes = 30\<rparr>"

definition timeBased_default :: timeBased_config where
  "timeBased_default =
     \<lparr>tb_enabled = True, blockedDays = [], blockedHours = [],
      allowedHoursStart = 6, allowedHoursEnd = 18\<rparr>"

text \<open>
  The MVP Enhanced defaults of the volatility filter; the STABLE program polls every
  5 minutes and has no \<^verbatim>\<open>timeframeMinutes\<close>, which it never reads.
\<close>

definition btcVolatility_default :: btcVolatility_config where
  "btcVolatility_default =
     \<lparr>btc_enabled = True, checkIntervalMinutes = 1, timeframeMinutes = 10,
      thresholdPercent = 2, btc_pauseMinutes = 15\<rparr>"

section \<open>Aggression-decay filter\<close>

subsection \<open>MVP Enhanced program\<close>

record aggression =
  ag_timestamp :: real
  normalizedAggression :: real

type_synonym aggressionHistory = "string \<rightharpoonup> aggression list"

text \<open>
  \<^verbatim>\<open>recordAggression(symbol, timestamp, buyVolume, sellVolume, priceRange)\<close>. The entry
  for the symbol is created before the volume check, so a call with zero total volume
  leaves an empty history behind.
\<close>

definition recordAggression ::
  "aggressionDecay_config \<Rightarrow> aggressionHistory \<Rightarrow> string \<Rightarrow> real \<Rightarrow> real \<Rightarrow> real \<Rightarrow> real
     \<Rightarrow> aggressionHistory" where
  "recordAggression config hist sy ts buyV sellV prange =
     (let hist1 = (if hist sy = None then hist(sy \<mapsto> []) else hist);
          total = buyV + sellV
      in if total = 0 then hist1
         else
           let dominantVolume = max buyV sellV;
               na = (if prange > 0 then dominantVolume / prange else dominantVolume);
               history = (case hist1 sy of None \<Rightarrow> [] | Some h \<Rightarrow> h)
                           @ [\<lparr>ag_timestamp = ts, normalizedAggression = na\<rparr>];
               cutoff = ts - (lookbackMinutes config * 60 * 1000)
           in hist1(sy \<mapsto> filter (\<lambda>h. ag_timestamp h \<ge> cutoff) history))"

text \<open>
  The reasons the aggression filters give; the figures their texts format are left out.
\<close>

datatype decay_reason =
    DecayFilterDisabled
  | InsufficientHistory
  | NoVolume
  | AggressionDecaying
  | AggressionStillHigh
  | AggressionDecay
  | NoDecayDetected

record decay_result =
  allowed :: bool
  decay_why :: decay_reason
  ratio :: "real option"

text \<open>
  \<^verbatim>\<open>shouldAllowEntry(symbol, currentBuyVol, currentSellVol, currentPriceRange)\<close>. The
  average of an empty history is 0/0 in JavaScript, a NaN that fails \<^verbatim>\<open>> 0\<close>; in
  HOL it is 0, which fails \<open>> 0\<close> as well.
\<close>

definition shouldAllowEntry ::
  "aggressionDecay_config \<Rightarrow> aggressionHistory \<Rightarrow> string \<Rightarrow> real \<Rightarrow> real \<Rightarrow> real \<Rightarrow> decay_result" where
  "shouldAllowEntry config hist sy currentBuyVol currentSellVol currentPriceRange =
     (if \<not> ad_enabled config
      then \<lparr>allowed = True, decay_why = DecayFilterDisabled, ratio = None\<rparr>
      else case hist sy of
        None \<Rightarrow> \<lparr>allowed = True, decay_why = InsufficientHistory, ratio = None\<rparr>
      | Some history \<Rightarrow>
          if real (length history) < minCandles config
          then \<lparr>allowed = True, decay_why = InsufficientHistory, ratio = None\<rparr>
          else
            let totalVolume = currentBuyVol + currentSellVol
            in if totalVolume = 0
               then \<lparr>allowed = False, decay_why = NoVolume, ratio = None\<rparr>
               else
                 let currentDominantVol = max currentBuyVol currentSellVol;
                     currentAggression =
                       (if currentPriceRange > 0 then currentDominantVol / currentPriceRange
                        else currentDominantVol);
                     avgHistoricalAggression =
                       fold (\<lambda>h sum. sum + normalizedAggression h) history 0
                         / real (length history);
                     r = (if avgHistoricalAggression > 0
                          then currentAggression / avgHistoricalAggression else 1);
                     ok = (r < decayThreshold config)
                 in \<lparr>allowed = ok,
                     decay_why = (if ok then AggressionDecaying else AggressionStillHigh),
                     ratio = Some r\<rparr>)"

subsection \<open>STABLE program\<close>

record candle =
  candle_timestamp :: real
  candle_dominance :: real

type_synonym candleHistory = "string \<rightharpoonup> candle list"

text \<open>\<^verbatim>\<open>recordCandle(symbol, candle)\<close>: at most \<^verbatim>\<open>lookbackMinutes\<close> candles are kept.\<close>

definition recordCandle ::
  "aggressionDecay_config \<Rightarrow> candleHistory \<Rightarrow> string \<Rightarrow> candle \<Rightarrow> candleHistory" where
  "recordCandle config hist sy c =
     (if \<not> ad_enabled config then hist
      else
        let history = (case hist sy of None \<Rightarrow> [] | Some h \<Rightarrow> h) @ [c];
            maxCandles = lookbackMinutes config
        in hist(sy \<mapsto> (if real (length history) > maxCandles then tl history else history)))"

record checkDecay_result =
  passed :: bool
  check_why :: decay_reason

text \<open>
  \<^verbatim>\<open>checkDecay(symbol, currentDominance)\<close>. The division by the average is unguarded
  in the source. Where the average is 0 JavaScript yields NaN (empty history, or current
  dominance 0), which fails \<^verbatim>\<open><\<close>, or an infinity with the sign of the current
  dominance; these cases are written out, since HOL's division by 0 yields 0.
\<close>

definition checkDecay ::
  "aggressionDecay_config \<Rightarrow> candleHistory \<Rightarrow> string \<Rightarrow> real \<Rightarrow> checkDecay_result" where
  "checkDecay config hist sy currentDominance =
     (if \<not> ad_enabled config then \<lparr>passed = True, check_why = DecayFilterDisabled\<rparr>
      else
        let history = (case hist sy of None \<Rightarrow> [] | Some h \<Rightarrow> h)
        in if real (length history) < minCandles config
           then \<lparr>passed = True, check_why = InsufficientHistory\<rparr>
           else
             let avgPastDominance =
                   fold (\<lambda>c sum. sum + candle_dominance c) history 0 / real (length history);
                 decayed =
                   (if length history = 0 then False
                    else if avgPastDominance = 0 then currentDominance < 0
                    else currentDominance / avgPastDominance < decayThreshold config)
             in if decayed then \<lparr>passed = False, check_why = AggressionDecay\<rparr>
                else \<lparr>passed = True, check_why = NoDecayDetected\<rparr>)"

text \<open>
  The aggression-decay rule in the words of the specification: the normalized aggression
  is the dominant-side volume over the price range, or the raw dominant volume when the
  range is zero; the entry is allowed exactly when the ratio of the current aggression to
  the average of the history is below the threshold.
\<close>

definition spec_aggression :: "real \<Rightarrow> real \<Rightarrow> real \<Rightarrow> real" where
  "spec_aggression buyV sellV prange =
     (if prange = 0 then max buyV sellV else max buyV sellV / prange)"

definition spec_average :: "real list \<Rightarrow> real" where
  "spec_average xs = sum_list xs / real (length xs)"

definition spec_decay_allows :: "real \<Rightarrow> real \<Rightarrow> real \<Rightarrow> bool" where
  "spec_decay_allows current average threshold = (current / average < threshold)"

section \<open>Volatility kill-switch\<close>

text \<open>What a filter of the stack answers: a verdict and a reason.\<close>

datatype filter_reason =
    BtcFilterDisabled
  | BtcVolatilityPause
  | BtcVolatilityNormal
  | StopClusterDisabled
  | StopClusterPauseActive
  | NoStopClusterDetected
  | TimeFilterDisabled
  | BlockedDay
  | BlockedHour
  | OutsideTradingHours
  | TradingAllowed

record filter_result =
  fr_allowed :: bool
  fr_reason :: filter_reason

subsection \<open>MVP Enhanced program\<close>

record btcSample =
  bs_timestamp :: real
  bs_price :: real

record btcAlert =
  ba_timestamp :: real
  ba_price :: real
  changePercent :: real
  absChangePercent :: real
  ba_up :: bool
  ba_timeframeMinutes :: real
  ba_pauseMinutes :: real

record BTCVolatilityFilter_mvp =
  btcPriceHistory :: "btcSample list"
  pausedUntil :: real
  lastBTCPrice :: "real option"
  lastAlertTime :: real
  btcAlerts :: "btcAlert list"

definition BTCVolatilityFilter_new_mvp :: BTCVolatilityFilter_mvp where
  "BTCVolatilityFilter_new_mvp =
     \<lparr>btcPriceHistory = [], pausedUntil = 0, lastBTCPrice = None, lastAlertTime = 0,
      btcAlerts = []\<rparr>"

text \<open>
  One poll of the reference price: the price the request returned (\<open>None\<close> when the
  request failed) and the three readings of \<^verbatim>\<open>Date.now()\<close> the poll makes, in
  \<^verbatim>\<open>checkBTC\<close> after the request, in \<^verbatim>\<open>checkBTC\<close> before the pause test, and in
  \<^verbatim>\<open>generateBTCAlert\<close>.
\<close>

record poll =
  response :: "real option"
  t_fetch :: real
  t_check :: real
  t_alert :: real

text \<open>
  \<^verbatim>\<open>generateBTCAlert(currentPrice, priceChange, absChange, config)\<close>: sets the pause,
  stores the alert and sends it; a failure of the send is caught and changes nothing.
  The result is the new state and the notifications sent.
\<close>

definition generateBTCAlert ::
  "btcVolatility_config \<Rightarrow> real \<Rightarrow> real \<Rightarrow> real \<Rightarrow> real \<Rightarrow> BTCVolatilityFilter_mvp
     \<Rightarrow> BTCVolatilityFilter_mvp \<times> btcAlert list" where
  "generateBTCAlert config currentPrice change absChange ts st =
     (let alert = \<lparr>ba_timestamp = ts, ba_price = currentPrice, changePercent = change,
                    absChangePercent = absChange, ba_up = (change > 0),
                    ba_timeframeMinutes = timeframeMinutes config,
                    ba_pauseMinutes = btc_pauseMinutes config\<rparr>
      in (st\<lparr>pausedUntil := ts + (btc_pauseMinutes config * 60 * 1000),
             btcAlerts := btcAlerts st @ [alert],
             lastAlertTime := ts\<rparr>,
          [alert]))"

text \<open>
  Whether a move from \<open>old\<close> to \<open>new\<close> reaches the threshold, as
  \<^verbatim>\<open>Math.abs(((new - old) / old) * 100) >= thresholdPercent\<close> decides it. For an old
  price of 0 JavaScript divides to an infinity, which reaches every threshold, or to NaN
  when the new price is 0 as well, which reaches none.
\<close>

definition breach :: "real \<Rightarrow> real \<Rightarrow> real \<Rightarrow> bool" where
  "breach threshold old new =
     (if old = 0 then new \<noteq> 0 else \<bar>((new - old) / old) * 100\<bar> \<ge> threshold)"

text \<open>\<^verbatim>\<open>checkBTC()\<close>: the new state and the notifications sent.\<close>

definition checkBTC ::
  "btcVolatility_config \<Rightarrow> poll \<Rightarrow> BTCVolatilityFilter_mvp
     \<Rightarrow> BTCVolatilityFilter_mvp \<times> btcAlert list" where
  "checkBTC config p st =
     (if \<not> btc_enabled config then (st, [])
      else case response p of
        None \<Rightarrow> (st, [])
      | Some currentPrice \<Rightarrow>
          let timestamp = t_fetch p;
              pushed = btcPriceHistory st @ [\<lparr>bs_timestamp = timestamp, bs_price = currentPrice\<rparr>];
              cutoff = timestamp - (timeframeMinutes config * 60 * 1000);
              st1 = st\<lparr>lastBTCPrice := Some currentPrice,
                       btcPriceHistory := filter (\<lambda>h. bs_timestamp h \<ge> cutoff) pushed\<rparr>
          in if length (btcPriceHistory st1) \<ge> 2
             then
               let oldestPrice = bs_price (hd (btcPriceHistory st1));
                   change = ((currentPrice - oldestPrice) / oldestPrice) * 100;
                   absChange = \<bar>change\<bar>
               in if breach (thresholdPercent config) oldestPrice currentPrice
                  then
                    let now = t_check p
                    in if now \<ge> pausedUntil st1
                       then generateBTCAlert config currentPrice change absChange (t_alert p) st1
                       else (st1, [])
                  else (st1, [])
             else (st1, []))"

text \<open>\<^verbatim>\<open>isTradingAllowed()\<close> of the volatility filter; \<open>now\<close> is \<^verbatim>\<open>Date.now()\<close>.\<close>

definition isTradingAllowed_btc ::
  "btcVolatility_config \<Rightarrow> BTCVolatilityFilter_mvp \<Rightarrow> real \<Rightarrow> filter_result" where
  "isTradingAllowed_btc config st now =
     (if \<not> btc_enabled config then \<lparr>fr_allowed = True, fr_reason = BtcFilterDisabled\<rparr>
      else if now < pausedUntil st then \<lparr>fr_allowed = False, fr_reason = BtcVolatilityPause\<rparr>
      else \<lparr>fr_allowed = True, fr_reason = BtcVolatilityNormal\<rparr>)"


subsection \<open>STABLE program\<close>

record BTCVolatilityFilter_stable =
  paused :: bool
  pauseUntil :: real
  alertCount :: nat
  bv_lastPrice :: "real option"
  bv_currentPrice :: "real option"

definition BTCVolatilityFilter_new_stable :: BTCVolatilityFilter_stable where
  "BTCVolatilityFilter_new_stable =
     \<lparr>paused = False, pauseUntil = 0, alertCount = 0, bv_lastPrice = None,
      bv_currentPrice = None\<rparr>"



text \<open>\<^verbatim>\<open>isPaused()\<close> of the STABLE volatility filter clears the flag once the pause is over.\<close>

definition isPaused_btc ::
  "btcVolatility_config \<Rightarrow> BTCVolatilityFilter_stable \<Rightarrow> real
     \<Rightarrow> bool \<times> BTCVolatilityFilter_stable" where
  "isPaused_btc config st now =
     (if \<not> btc_enabled config then (False, st)
      else
        let st1 = (if paused st \<and> now \<ge> pauseUntil st then st\<lparr>paused := False\<rparr> else st)
        in (paused st1, st1))"


text \<open>The history after the push and the eviction of a poll.\<close>

definition window_after :: "btcVolatility_config \<Rightarrow> poll \<Rightarrow> real \<Rightarrow> BTCVolatilityFilter_mvp \<Rightarrow> btcSample list" where
  "window_after config p cur st =
     filter (\<lambda>h. bs_timestamp h \<ge> t_fetch p - timeframeMinutes config * 60 * 1000)
       (btcPriceHistory st @ [\<lparr>bs_timestamp = t_fetch p, bs_price = cur\<rparr>])"

text \<open>
  The defaults of the STABLE volatility filter. It has no \<^verbatim>\<open>timeframeMinutes\<close>; the
  field is never read by the STABLE functions.
\<close>

definition btcVolatility_default_stable :: btcVolatility_config where
  "btcVolatility_default_stable =
     \<lparr>btc_enabled = True, checkIntervalMinutes = 5, timeframeMinutes = 0,
      thresholdPercent = 2, btc_pauseMinutes = 15\<rparr>"

section \<open>Stop-cluster protection\<close>

record stopEvent =
  se_timestamp :: real
  se_symbol :: string

subsection \<open>MVP Enhanced program\<close>

record StopClusterProtection_mvp =
  stopLossEvents :: "stopEvent list"
  sc_pausedUntil :: real

text \<open>\<^verbatim>\<open>recordStopLoss(symbol)\<close>; \<open>now\<close> is \<^verbatim>\<open>Date.now()\<close>.\<close>

definition recordStopLoss ::
  "stopCluster_config \<Rightarrow> StopClusterProtection_mvp \<Rightarrow> string \<Rightarrow> real \<Rightarrow> StopClusterProtection_mvp" where
  "recordStopLoss config st sy now =
     (if \<not> sc_enabled config then st
      else
        let pushed = stopLossEvents st @ [\<lparr>se_timestamp = now, se_symbol = sy\<rparr>];
            cutoff = now - (timeWindowMinutes config * 60 * 1000);
            st1 = st\<lparr>stopLossEvents := filter (\<lambda>e. se_timestamp e \<ge> cutoff) pushed\<rparr>
        in if real (length (stopLossEvents st1)) \<ge> maxStops config
           then st1\<lparr>sc_pausedUntil := now + (sc_pauseMinutes config * 60 * 1000)\<rparr>
           else st1)"

text \<open>\<^verbatim>\<open>isTradingAllowed()\<close> of the stop-cluster protection.\<close>

definition isTradingAllowed_stop ::
  "stopCluster_config \<Rightarrow> StopClusterProtection_mvp \<Rightarrow> real \<Rightarrow> filter_result" where
  "isTradingAllowed_stop config st now =
     (if \<not> sc_enabled config then \<lparr>fr_allowed = True, fr_reason = StopClusterDisabled\<rparr>
      else if now < sc_pausedUntil st
        then \<lparr>fr_allowed = False, fr_reason = StopClusterPauseActive\<rparr>
      else \<lparr>fr_allowed = True, fr_reason = NoStopClusterDetected\<rparr>)"

subsection \<open>STABLE program\<close>

record StopClusterProtection_stable =
  stopEvents :: "stopEvent list"
  sc_paused :: bool
  sc_pauseUntil :: real

text \<open>\<^verbatim>\<open>recordStop(symbol)\<close>\<close>

definition recordStop ::
  "stopCluster_config \<Rightarrow> StopClusterProtection_stable \<Rightarrow> string \<Rightarrow> real
     \<Rightarrow> StopClusterProtection_stable" where
  "recordStop config st sy now =
     (if \<not> sc_enabled config then st
      else
        let pushed = stopEvents st @ [\<lparr>se_timestamp = now, se_symbol = sy\<rparr>];
            windowMs = timeWindowMinutes config * 60 * 1000;
            st1 = st\<lparr>stopEvents := filter (\<lambda>e. now - se_timestamp e < windowMs) pushed\<rparr>
        in if real (length (stopEvents st1)) \<ge> maxStops config
           then st1\<lparr>sc_paused := True,
                    sc_pauseUntil := now + (sc_pauseMinutes config * 60 * 1000)\<rparr>
           else st1)"

text \<open>\<^verbatim>\<open>isPaused()\<close> of the stop-cluster protection clears the pause and the events once the pause is over.\<close>

definition isPaused_stop ::
  "stopCluster_config \<Rightarrow> StopClusterProtection_stable \<Rightarrow> real
     \<Rightarrow> bool \<times> StopClusterProtection_stable" where
  "isPaused_stop config st now =
     (if \<not> sc_enabled config then (False, st)
      else
        let st1 = (if sc_paused st \<and> now \<ge> sc_pauseUntil st
                   then st\<lparr>sc_paused := False, stopEvents := []\<rparr> else st)
        in (sc_paused st1, st1))"

section \<open>Time-based filter\<close>

text \<open>
  \<^verbatim>\<open>isTradingAllowed()\<close> of the time filter, the same decision in both programs. The
  day of the week and the hour are read from the clock: UTC in the MVP Enhanced program,
  local time in the STABLE program.
\<close>

definition isTradingAllowed_time :: "timeBased_config \<Rightarrow> real \<Rightarrow> real \<Rightarrow> filter_result" where
  "isTradingAllowed_time config dayOfWeek hour =
     (if \<not> tb_enabled config then \<lparr>fr_allowed = True, fr_reason = TimeFilterDisabled\<rparr>
      else if dayOfWeek \<in> set (blockedDays config)
        then \<lparr>fr_allowed = False, fr_reason = BlockedDay\<rparr>
      else if hour \<in> set (blockedHours config)
        then \<lparr>fr_allowed = False, fr_reason = BlockedHour\<rparr>
      else if hour < allowedHoursStart config \<or> hour \<ge> allowedHoursEnd config
        then \<lparr>fr_allowed = False, fr_reason = OutsideTradingHours\<rparr>
      else \<lparr>fr_allowed = True, fr_reason = TradingAllowed\<rparr>)"

section \<open>Signal engines\<close>

text \<open>
  The clock readings one evaluation makes: \<^verbatim>\<open>Date.now()\<close> in the stop-cluster check,
  the day and the hour in the time check, \<^verbatim>\<open>Date.now()\<close> in the volatility check.
\<close>

record clock =
  clk_stop :: real
  clk_day :: real
  clk_hour :: real
  clk_btc :: real

datatype filter_name = AggressionDecay | StopCluster | TimeBased | BtcVolatility

datatype signal_reason =
    NoStats
  | SymbolNotFoundReason
  | SymbolDisabled
  | BtcVolatilityPauseReason
  | StopClusterPauseReason
  | VolumeTooLow
  | DominanceTooLow
  | PriceChangeTooSmall
  | BuyDominanceButPriceDown
  | SellDominanceButPriceUp
  | Aggression decay_reason
  | Filter filter_reason
  | AllFiltersPassed

subsection \<open>MVP Enhanced program\<close>

text \<open>The filters the engine holds, each with the configuration it reads.\<close>

record filterStack_mvp =
  aggressionConfig :: aggressionDecay_config
  aggressionFilter :: aggressionHistory
  stopConfig :: stopCluster_config
  stopClusterFilter :: StopClusterProtection_mvp
  timeConfig :: timeBased_config
  btcConfig :: btcVolatility_config
  btcFilter :: BTCVolatilityFilter_mvp

text \<open>
  The decision \<^verbatim>\<open>{ allow, reason }\<close>. The field \<open>consulted\<close> is not in the source:
  it lists, in order, the filters of the stack whose check the evaluation called.
\<close>

record decision =
  allow :: bool
  reason :: signal_reason
  consulted :: "filter_name list"

text \<open>\<^verbatim>\<open>shouldAlert(symbol, stats)\<close>\<close>

definition shouldAlert ::
  "RuntimeConfig \<Rightarrow> filterStack_mvp \<Rightarrow> clock \<Rightarrow> string \<Rightarrow> stats option \<Rightarrow> decision" where
  "shouldAlert rc fs clk sy stats =
     (case stats of
        None \<Rightarrow> \<lparr>allow = False, reason = NoStats, consulted = []\<rparr>
      | Some st \<Rightarrow>
          (case getSymbolConfig rc sy of
             None \<Rightarrow> \<lparr>allow = False, reason = SymbolDisabled, consulted = []\<rparr>
           | Some config \<Rightarrow>
               if \<not> enabled config
                 then \<lparr>allow = False, reason = SymbolDisabled, consulted = []\<rparr>
               else if totalVolume st < minVolumeUSD config
                 then \<lparr>allow = False, reason = VolumeTooLow, consulted = []\<rparr>
               else if dominance st < minDominance config
                 then \<lparr>allow = False, reason = DominanceTooLow, consulted = []\<rparr>
               else if \<bar>priceChange st\<bar> < minPriceChange config
                 then \<lparr>allow = False, reason = PriceChangeTooSmall, consulted = []\<rparr>
               else if dominantSide st = Buy \<and> priceChange st < 0
                 then \<lparr>allow = False, reason = BuyDominanceButPriceDown, consulted = []\<rparr>
               else if dominantSide st = Sell \<and> priceChange st > 0
                 then \<lparr>allow = False, reason = SellDominanceButPriceUp, consulted = []\<rparr>
               else
                 let aggressionCheck =
                       shouldAllowEntry (aggressionConfig fs) (aggressionFilter fs) sy
                         (buyVolume st) (sellVolume st) (priceRange st)
                 in if \<not> allowed aggressionCheck
                    then \<lparr>allow = False, reason = Aggression (decay_why aggressionCheck),
                          consulted = [AggressionDecay]\<rparr>
                    else
                      let stopCheck =
                            isTradingAllowed_stop (stopConfig fs) (stopClusterFilter fs) (clk_stop clk)
                      in if \<not> fr_allowed stopCheck
                         then \<lparr>allow = False, reason = Filter (fr_reason stopCheck),
                               consulted = [AggressionDecay, StopCluster]\<rparr>
                         else
                           let timeCheck =
                                 isTradingAllowed_time (timeConfig fs) (clk_day clk) (clk_hour clk)
                           in if \<not> fr_allowed timeCheck
                              then \<lparr>allow = False, reason = Filter (fr_reason timeCheck),
                                    consulted = [AggressionDecay, StopCluster, TimeBased]\<rparr>
                              else
                                let btcCheck =
                                      isTradingAllowed_btc (btcConfig fs) (btcFilter fs) (clk_btc clk)
                                in if \<not> fr_allowed btcCheck
                                   then \<lparr>allow = False, reason = Filter (fr_reason btcCheck),
                                         consulted = [AggressionDecay, StopCluster, TimeBased,
                                                      BtcVolatility]\<rparr>
                                   else \<lparr>allow = True, reason = AllFiltersPassed,
                                         consulted = [AggressionDecay, StopCluster, TimeBased,
                                                      BtcVolatility]\<rparr>))"


text \<open>The instrument thresholds of an evaluation, all passed.\<close>

definition thresholds_pass :: "symbolConfig \<Rightarrow> stats \<Rightarrow> bool" where
  "thresholds_pass config st =
     (enabled config \<and> minVolumeUSD config \<le> totalVolume st \<and> minDominance config \<le> dominance st
      \<and> minPriceChange config \<le> \<bar>priceChange st\<bar>
      \<and> \<not> (dominantSide st = Buy \<and> priceChange st < 0)
      \<and> \<not> (dominantSide st = Sell \<and> priceChange st > 0))"


subsection \<open>STABLE program\<close>

record filterStack_stable =
  aggressionConfig_stable :: aggressionDecay_config
  aggressionFilter_stable :: candleHistory
  stopConfig_stable :: stopCluster_config
  stopClusterFilter_stable :: StopClusterProtection_stable
  timeConfig_stable :: timeBased_config
  btcConfig_stable :: btcVolatility_config
  btcFilter_stable :: BTCVolatilityFilter_stable

text \<open>The decision \<^verbatim>\<open>{ signal, reason }\<close>, with the same added list of filters called.\<close>

record decision_stable =
  signal :: bool
  reason_stable :: signal_reason
  consulted_stable :: "filter_name list"

text \<open>
  \<^verbatim>\<open>checkSignal(stats)\<close>. The two \<^verbatim>\<open>isPaused()\<close> calls may clear an expired pause, so
  the stack is returned as well.
\<close>

definition checkSignal ::
  "RuntimeConfig \<Rightarrow> filterStack_stable \<Rightarrow> clock \<Rightarrow> stats_stable
     \<Rightarrow> decision_stable \<times> filterStack_stable" where
  "checkSignal rc fs clk st =
     (case getSymbolConfig rc (ss_symbol st) of
        None \<Rightarrow> (\<lparr>signal = False, reason_stable = SymbolNotFoundReason, consulted_stable = []\<rparr>, fs)
      | Some config \<Rightarrow>
          if \<not> enabled config
            then (\<lparr>signal = False, reason_stable = SymbolDisabled, consulted_stable = []\<rparr>, fs)
          else
            let btcPaused = isPaused_btc (btcConfig_stable fs) (btcFilter_stable fs) (clk_btc clk);
                fs1 = fs\<lparr>btcFilter_stable := snd btcPaused\<rparr>
            in if fst btcPaused
               then (\<lparr>signal = False, reason_stable = BtcVolatilityPauseReason,
                      consulted_stable = [BtcVolatility]\<rparr>, fs1)
               else
                 let stopPaused =
                       isPaused_stop (stopConfig_stable fs1) (stopClusterFilter_stable fs1) (clk_stop clk);
                     fs2 = fs1\<lparr>stopClusterFilter_stable := snd stopPaused\<rparr>
                 in if fst stopPaused
                    then (\<lparr>signal = False, reason_stable = StopClusterPauseReason,
                           consulted_stable = [BtcVolatility, StopCluster]\<rparr>, fs2)
                    else
                      let timeCheck =
                            isTradingAllowed_time (timeConfig_stable fs2) (clk_day clk) (clk_hour clk)
                      in if \<not> fr_allowed timeCheck
                         then (\<lparr>signal = False, reason_stable = Filter (fr_reason timeCheck),
                                consulted_stable = [BtcVolatility, StopCluster, TimeBased]\<rparr>, fs2)
                         else if totalVolumeUSD st < minVolumeUSD config
                         then (\<lparr>signal = False, reason_stable = VolumeTooLow,
                                consulted_stable = [BtcVolatility, StopCluster, TimeBased]\<rparr>, fs2)
                         else if dominance_stable st < minDominance config
                         then (\<lparr>signal = False, reason_stable = DominanceTooLow,
                                consulted_stable = [BtcVolatility, StopCluster, TimeBased]\<rparr>, fs2)
                         else if ss_priceChange st < minPriceChange config
                         then (\<lparr>signal = False, reason_stable = PriceChangeTooSmall,
                                consulted_stable = [BtcVolatility, StopCluster, TimeBased]\<rparr>, fs2)
                         else
                           let decayCheck =
                                 checkDecay (aggressionConfig_stable fs2) (aggressionFilter_stable fs2)
                                   (ss_symbol st) (dominance_stable st)
                           in if \<not> passed decayCheck
                              then (\<lparr>signal = False, reason_stable = Aggression (check_why decayCheck),
                                     consulted_stable = [BtcVolatility, StopCluster, TimeBased,
                                                         AggressionDecay]\<rparr>, fs2)
                              else (\<lparr>signal = True, reason_stable = AllFiltersPassed,
                                     consulted_stable = [BtcVolatility, StopCluster, TimeBased,
                                                         AggressionDecay]\<rparr>, fs2))"

text \<open>Newly constructed filters and the default stacks of the two programs.\<close>

definition filterStack_new_mvp :: filterStack_mvp where
  "filterStack_new_mvp =
     \<lparr>aggressionConfig = aggressionDecay_default, aggressionFilter = Map.empty,
      stopConfig = stopCluster_default,
      stopClusterFilter = \<lparr>stopLossEvents = [], sc_pausedUntil = 0\<rparr>,
      timeConfig = timeBased_default,
      btcConfig = btcVolatility_default, btcFilter = BTCVolatilityFilter_new_mvp\<rparr>"

definition filterStack_new_stable :: filterStack_stable where
  "filterStack_new_stable =
     \<lparr>aggressionConfig_stable = aggressionDecay_default, aggressionFilter_stable = Map.empty,
      stopConfig_stable = stopCluster_default,
      stopClusterFilter_stable = \<lparr>stopEvents = [], sc_paused = False, sc_pauseUntil = 0\<rparr>,
      timeConfig_stable = timeBased_default,
      btcConfig_stable = btcVolatility_default_stable,
      btcFilter_stable = BTCVolatilityFilter_new_stable\<rparr>"

text \<open>The checks of a STABLE evaluation, in the order \<^verbatim>\<open>checkSignal\<close> makes them.\<close>

definition btc_paused :: "filterStack_stable \<Rightarrow> clock \<Rightarrow> bool" where
  "btc_paused fs clk = fst (isPaused_btc (btcConfig_stable fs) (btcFilter_stable fs) (clk_btc clk))"

definition stop_paused :: "filterStack_stable \<Rightarrow> clock \<Rightarrow> bool" where
  "stop_paused fs clk =
     fst (isPaused_stop (stopConfig_stable fs) (stopClusterFilter_stable fs) (clk_stop clk))"

definition time_allowed :: "filterStack_stable \<Rightarrow> clock \<Rightarrow> bool" where
  "time_allowed fs clk =
     fr_allowed (isTradingAllowed_time (timeConfig_stable fs) (clk_day clk) (clk_hour clk))"

definition thresholds_pass_stable :: "symbolConfig \<Rightarrow> stats_stable \<Rightarrow> bool" where
  "thresholds_pass_stable config st =
     (minVolumeUSD config \<le> totalVolumeUSD st \<and> minDominance config \<le> dominance_stable st
      \<and> minPriceChange config \<le> ss_priceChange st)"

definition decay_passed :: "filterStack_stable \<Rightarrow> stats_stable \<Rightarrow> bool" where
  "decay_passed fs st =
     passed (checkDecay (aggressionConfig_stable fs) (aggressionFilter_stable fs)
               (ss_symbol st) (dominance_stable st))"

section \<open>Properties of the two aggregators\<close>

lemma fold_add_sum: "fold (\<lambda>t acc. acc + f t) xs (a::real) = a + sum_list (map f xs)"
  by (induction xs arbitrary: a) auto

lemma trades_cleanup: "trades (cleanup c s) = filter (\<lambda>t. timestamp t \<ge> c - windowMs s) (trades s)"
  by (simp add: cleanup_def Let_def split: list.splits)

lemma windowMs_cleanup: "windowMs (cleanup c s) = windowMs s"
  by (simp add: cleanup_def Let_def split: list.splits)

lemma firstPrice_cleanup: "firstPrice (cleanup c s) = (case trades (cleanup c s) of [] \<Rightarrow> None | t # _ \<Rightarrow> Some (price t))"
  by (simp add: cleanup_def Let_def split: list.splits)

lemma lastPrice_cleanup: "lastPrice (cleanup c s) = lastPrice s"
  by (simp add: cleanup_def Let_def split: list.splits)

lemma trades_addTrade:
  "trades (addTrade (ev_T e) (ev_p e) (ev_q e) (ev_m e) s) =
     filter (\<lambda>t. timestamp t \<ge> ev_T e - windowMs s) (trades s @ [trade_of e])"
  by (simp add: addTrade_def Let_def trades_cleanup trade_of_def)

lemma windowMs_addTrade: "windowMs (addTrade ts p q m s) = windowMs s"
  by (simp add: addTrade_def Let_def windowMs_cleanup)

lemma lastPrice_addTrade: "lastPrice (addTrade ts p q m s) = Some p"
  by (simp add: addTrade_def Let_def lastPrice_cleanup)

lemma firstPrice_addTrade: "firstPrice (addTrade ts p q m s) = (case trades (addTrade ts p q m s) of [] \<Rightarrow> None | t # _ \<Rightarrow> Some (price t))"
  by (simp add: addTrade_def Let_def firstPrice_cleanup)

lemma feed_snoc: "feed (evs @ [e]) s = addTrade (ev_T e) (ev_p e) (ev_q e) (ev_m e) (feed evs s)"
  by (simp add: feed_def)

lemma windowMs_feed: "windowMs (feed evs s) = windowMs s"
  by (induction evs rule: rev_induct) (simp_all add: feed_snoc windowMs_addTrade, simp add: feed_def)

lemma sorted_snoc_last: "sorted (xs @ [x :: real]) \<Longrightarrow> xs \<noteq> [] \<Longrightarrow> last xs \<le> x"
  by (simp add: sorted_append)

lemma spec_window_nonempty:
  "evs \<noteq> [] \<Longrightarrow> spec_window w evs = filter (\<lambda>e. ev_T e \<ge> ev_T (last evs) - w) evs"
  by (cases evs) (simp_all add: spec_window_def)

lemma trades_feed:
  "trades s = [] \<Longrightarrow> sorted (map ev_T evs) \<Longrightarrow>
   trades (feed evs s) = map trade_of (spec_window (windowMs s) evs)"
proof (induction evs rule: rev_induct)
  case Nil
  then show ?case by (simp add: feed_def spec_window_def)
next
  case (snoc e evs)
  have srt: "sorted (map ev_T evs)" using snoc.prems(2) by (simp add: sorted_append)
  have IH: "trades (feed evs s) = map trade_of (spec_window (windowMs s) evs)"
    using snoc.IH[OF snoc.prems(1) srt] .
  have le: "\<And>x. x \<in> set evs \<Longrightarrow> ev_T x \<le> ev_T e"
    using snoc.prems(2) by (auto simp: sorted_append)
  have filt: "filter (\<lambda>t. ev_T e - windowMs s \<le> ev_T t) (spec_window (windowMs s) evs)
            = filter (\<lambda>t. ev_T e - windowMs s \<le> ev_T t) evs"
  proof (cases evs)
    case Nil then show ?thesis by (simp add: spec_window_def)
  next
    case (Cons a as)
    then have "last evs \<in> set evs" by simp
    then have "ev_T (last evs) \<le> ev_T e" using le by blast
    moreover have "evs \<noteq> []" using Cons by simp
    ultimately show ?thesis
      by (auto simp: spec_window_nonempty intro!: filter_cong)
  qed
  have "spec_window (windowMs s) (evs @ [e]) = filter (\<lambda>t. ev_T e - windowMs s \<le> ev_T t) (evs @ [e])"
    using spec_window_nonempty[of "evs @ [e]" "windowMs s"] by simp
  then show ?case
    by (simp add: feed_snoc trades_addTrade windowMs_feed IH filter_map o_def trade_of_def filt[symmetric])
qed

lemma vol_trade_of: "buyVol (trade_of e) + sellVol (trade_of e) = ev_p e * ev_q e"
  by (simp add: trade_of_def)

lemma sum_buy_sell: "sum_list (map buyVol (map trade_of es)) + sum_list (map sellVol (map trade_of es))
   = sum_list (map (\<lambda>e. ev_p e * ev_q e) es)"
  by (induction es) (simp_all add: trade_of_def)

lemma getStats_total:
  "map_option totalVolume (getStats s) =
     (let t = sum_list (map buyVol (trades s)) + sum_list (map sellVol (trades s))
      in if trades s = [] \<or> t = 0 then None else Some t)"
  by (simp add: getStats_def Let_def fold_add_sum)

lemma window_volume_state:
  assumes "trades s = []" "sorted (map ev_T evs)"
  shows "map_option totalVolume (getStats (feed evs s)) =
     (if spec_totalVolume (windowMs s) evs = 0 then None else Some (spec_totalVolume (windowMs s) evs))"
proof -
  have t: "trades (feed evs s) = map trade_of (spec_window (windowMs s) evs)"
    using trades_feed[OF assms] .
  have e: "spec_window (windowMs s) evs = [] \<Longrightarrow> spec_totalVolume (windowMs s) evs = 0"
    by (simp add: spec_totalVolume_def)
  show ?thesis
    unfolding getStats_total t Let_def sum_buy_sell
    using e by (auto simp: spec_totalVolume_def)
qed

lemma states_feed_mvp:
  "states agg = Map.empty \<Longrightarrow> states (feed_mvp evs agg) sy =
     (if events_of sy evs = [] then None
      else Some (feed (events_of sy evs) (SymbolState_new sy (windowSeconds agg))))"
proof (induction evs rule: rev_induct)
  case Nil
  then show ?case by (simp add: feed_mvp_def events_of_def)
next
  case (snoc x evs)
  obtain sy' e where x: "x = (sy', e)" by (cases x)
  have ws: "windowSeconds (feed_mvp evs agg) = windowSeconds agg" for evs
    by (induction evs rule: rev_induct) (simp_all add: feed_mvp_def addTrade_mvp_def Let_def split: prod.splits)
  have step: "feed_mvp (evs @ [(sy', e)]) agg = addTrade_mvp sy' (ev_T e) (ev_p e) (ev_q e) (ev_m e) (feed_mvp evs agg)"
    by (simp add: feed_mvp_def)
  have IH: "states (feed_mvp evs agg) sy =
     (if events_of sy evs = [] then None
      else Some (feed (events_of sy evs) (SymbolState_new sy (windowSeconds agg))))"
    using snoc.IH[OF snoc.prems] .
  show ?case
  proof (cases "sy' = sy")
    case True
    have ev: "events_of sy (evs @ [(sy', e)]) = events_of sy evs @ [e]"
      using True by (simp add: events_of_def)
    have "states (addTrade_mvp sy' (ev_T e) (ev_p e) (ev_q e) (ev_m e) (feed_mvp evs agg)) sy =
        Some (addTrade (ev_T e) (ev_p e) (ev_q e) (ev_m e)
          (case states (feed_mvp evs agg) sy of None \<Rightarrow> SymbolState_new sy (windowSeconds agg) | Some st0 \<Rightarrow> st0))"
      using True by (simp add: addTrade_mvp_def Let_def ws cong: option.case_cong)
    also have "(case states (feed_mvp evs agg) sy of None \<Rightarrow> SymbolState_new sy (windowSeconds agg) | Some st0 \<Rightarrow> st0)
        = feed (events_of sy evs) (SymbolState_new sy (windowSeconds agg))"
      unfolding IH by (simp add: feed_def)
    finally show ?thesis unfolding x ev step by (simp add: feed_snoc)
  next
    case False
    have ev: "events_of sy (evs @ [(sy', e)]) = events_of sy evs"
      using False by (simp add: events_of_def)
    have "states (addTrade_mvp sy' (ev_T e) (ev_p e) (ev_q e) (ev_m e) (feed_mvp evs agg)) sy = states (feed_mvp evs agg) sy"
      using False by (simp add: addTrade_mvp_def Let_def)
    then show ?thesis unfolding x ev step IH .
  qed
qed

lemma getStats_feed_mvp:
  "getStats_mvp sy (feed_mvp evs (TradeAggregator_new_mvp ws)) =
     (if events_of sy evs = [] then None
      else getStats (feed (events_of sy evs) (SymbolState_new sy ws)))"
  by (simp add: getStats_mvp_def states_feed_mvp TradeAggregator_new_mvp_def)

lemma getStats_feed_nil: "trades s = [] \<Longrightarrow> getStats (feed [] s) = None"
  by (simp add: feed_def getStats_def)

lemma window_volume_mvp:
  assumes "sorted (map ev_T (events_of sy evs))"
  shows "map_option totalVolume (getStats_mvp sy (feed_mvp evs (TradeAggregator_new_mvp ws))) =
     (if spec_totalVolume (ws * 1000) (events_of sy evs) = 0 then None
      else Some (spec_totalVolume (ws * 1000) (events_of sy evs)))"
proof -
  have n: "trades (SymbolState_new sy ws) = []" "windowMs (SymbolState_new sy ws) = ws * 1000"
    by (simp_all add: SymbolState_new_def)
  show ?thesis
    using window_volume_state[OF n(1) assms] n(2)
    by (auto simp: getStats_feed_mvp spec_totalVolume_def spec_window_def)
qed

lemma getStats_stable_total:
  "trades_stable agg sy = Some data \<Longrightarrow>
   map_option totalVolumeUSD (getStats_stable sy now agg) =
     (let c = now - windowSeconds_stable agg * 1000;
          t = notional (active c (buys data)) + notional (active c (sells data))
      in if t = 0 then None else Some t)"
  by (auto simp: getStats_stable_def Let_def fold_add_sum active_def notional_def split: list.splits)

lemma feed_stable_snoc:
  "feed_stable (evs @ [(sy, e, now)]) agg = addTrade_stable sy e now (feed_stable evs agg)"
  by (simp add: feed_stable_def)

lemma ws_feed_stable: "windowSeconds_stable (feed_stable evs agg) = windowSeconds_stable agg"
  by (induction evs rule: rev_induct)
     (auto simp: feed_stable_def addTrade_stable_def Let_def)

lemma feed_stable_none:
  "trades_stable agg = Map.empty \<Longrightarrow>
   (trades_stable (feed_stable evs agg) sy = None) = (events_of_stable sy evs = [])"
proof (induction evs rule: rev_induct)
  case Nil
  then show ?case by (simp add: feed_stable_def events_of_stable_def)
next
  case (snoc x evs)
  obtain sy' e now where x: "x = (sy', e, now)" by (cases x)
  show ?case using snoc.IH[OF snoc.prems] unfolding x feed_stable_snoc
    by (auto simp: addTrade_stable_def Let_def events_of_stable_def)
qed

lemma buys_of_addTrade:
  "buys_of (addTrade_stable sy' e now agg) sy =
     (if sy' = sy \<and> \<not> ev_m e
      then filter (\<lambda>t. tick_time t > now - windowSeconds_stable agg * 1000) (buys_of agg sy @ [tick_of e])
      else buys_of agg sy)"
  by (simp add: buys_of_def addTrade_stable_def Let_def tick_of_def split: option.splits)

lemma sells_of_addTrade:
  "sells_of (addTrade_stable sy' e now agg) sy =
     (if sy' = sy \<and> ev_m e
      then filter (\<lambda>t. tick_time t > now - windowSeconds_stable agg * 1000) (sells_of agg sy @ [tick_of e])
      else sells_of agg sy)"
  by (simp add: sells_of_def addTrade_stable_def Let_def tick_of_def split: option.splits)

lemma active_filter:
  "c' \<le> c \<Longrightarrow> active c (filter (\<lambda>t. tick_time t > c') ts) = active c ts"
  by (auto simp: active_def intro!: filter_cong)

lemma active_append: "active c (xs @ ys) = active c xs @ active c ys"
  by (simp add: active_def)

lemma active_step:
  "c' \<le> c \<Longrightarrow> active c (filter (\<lambda>t. tick_time t > c') (xs @ [t])) = active c xs @ active c [t]"
  using active_filter[of c' c "xs @ [t]"] by (simp add: active_append)

lemma feed_stable_active:
  assumes "trades_stable agg = Map.empty"
    and "\<forall>x\<in>set evs. snd (snd x) - windowSeconds_stable agg * 1000 \<le> c"
  shows "active c (buys_of (feed_stable evs agg) sy) =
           active c (map tick_of (filter (\<lambda>e. \<not> ev_m e) (events_of_stable sy evs)))"
    and "active c (sells_of (feed_stable evs agg) sy) =
           active c (map tick_of (filter ev_m (events_of_stable sy evs)))"
  using assms(2)
proof (induction evs rule: rev_induct)
  case Nil
  { case 1 show ?case using assms(1) by (simp add: feed_stable_def buys_of_def events_of_stable_def) }
  { case 2 show ?case using assms(1) by (simp add: feed_stable_def sells_of_def events_of_stable_def) }
next
  case (snoc x evs)
  obtain sy' e now where x: "x = (sy', e, now)" by (cases x)
  { case 1
    have bound: "\<forall>x\<in>set evs. snd (snd x) - windowSeconds_stable agg * 1000 \<le> c"
      and nb: "now - windowSeconds_stable agg * 1000 \<le> c"
      using 1 x by auto
    show ?case unfolding x feed_stable_snoc buys_of_addTrade ws_feed_stable
      using snoc.IH(1)[OF bound] active_step[OF nb]
      by (simp add: events_of_stable_def active_append del: filter_append filter.simps)
         (simp add: active_def) }
  { case 2
    have bound: "\<forall>x\<in>set evs. snd (snd x) - windowSeconds_stable agg * 1000 \<le> c"
      and nb: "now - windowSeconds_stable agg * 1000 \<le> c"
      using 2 x by auto
    show ?case unfolding x feed_stable_snoc sells_of_addTrade ws_feed_stable
      using snoc.IH(2)[OF bound] active_step[OF nb]
      by (simp add: events_of_stable_def active_append del: filter_append filter.simps)
         (simp add: active_def) }
qed

lemma getStats_stable_total':
  "map_option totalVolumeUSD (getStats_stable sy now agg) =
     (let c = now - windowSeconds_stable agg * 1000;
          t = notional (active c (buys_of agg sy)) + notional (active c (sells_of agg sy))
      in if t = 0 then None else Some t)"
proof (cases "trades_stable agg sy")
  case None
  then show ?thesis by (simp add: getStats_stable_def buys_of_def sells_of_def active_def notional_def)
next
  case (Some d)
  then show ?thesis using getStats_stable_total[OF Some]
    by (simp add: buys_of_def sells_of_def)
qed

lemma notional_partition:
  "notional (active c (map tick_of (filter (\<lambda>e. \<not> ev_m e) es))) + notional (active c (map tick_of (filter ev_m es)))
     = sum_list (map (\<lambda>e. ev_p e * ev_q e) (wallclock_window c es))"
  by (induction es) (auto simp: notional_def active_def wallclock_window_def tick_of_def)

lemma window_volume_stable:
  assumes "\<forall>x\<in>set evs. snd (snd x) \<le> now"
  shows "map_option totalVolumeUSD (getStats_stable sy now (feed_stable evs (TradeAggregator_new_stable ws))) =
     (let v = sum_list (map (\<lambda>e. ev_p e * ev_q e) (wallclock_window (now - ws * 1000) (events_of_stable sy evs)))
      in if v = 0 then None else Some v)"
proof -
  let ?agg = "TradeAggregator_new_stable ws"
  have e: "trades_stable ?agg = Map.empty" and w: "windowSeconds_stable ?agg = ws"
    by (simp_all add: TradeAggregator_new_stable_def)
  have b: "\<forall>x\<in>set evs. snd (snd x) - windowSeconds_stable ?agg * 1000 \<le> now - ws * 1000"
    using assms w by auto
  show ?thesis
    unfolding getStats_stable_total' ws_feed_stable w Let_def
      feed_stable_active[OF e b] notional_partition ..
qed

lemma getStats_Some_iff:
  "getStats s = Some st \<Longrightarrow>
     trades s \<noteq> [] \<and>
     buyVolume st = sum_list (map buyVol (trades s)) \<and>
     sellVolume st = sum_list (map sellVol (trades s)) \<and>
     totalVolume st = buyVolume st + sellVolume st \<and>
     totalVolume st \<noteq> 0 \<and>
     dominantSide st = (if buyVolume st > sellVolume st then Buy else Sell) \<and>
     dominance st = max (buyVolume st / totalVolume st * 100) (sellVolume st / totalVolume st * 100) \<and>
     priceChange st = (if truthy (firstPrice s)
                     then ((num (lastPrice s) - num (firstPrice s)) / num (firstPrice s)) * 100
                     else 0)"
  by (auto simp: getStats_def Let_def fold_add_sum split: if_splits)

lemma getStats_None_iff:
  "getStats s = None \<longleftrightarrow>
     trades s = [] \<or> sum_list (map buyVol (trades s)) + sum_list (map sellVol (trades s)) = 0"
  by (auto simp: getStats_def Let_def fold_add_sum split: if_splits)

lemma dominance_bounds:
  fixes b s :: real
  assumes "0 \<le> b" "0 \<le> s" "b + s \<noteq> 0"
  shows "max (b / (b + s) * 100) (s / (b + s) * 100) = max b s / (b + s) * 100"
    and "50 \<le> max b s / (b + s) * 100"
    and "max b s / (b + s) * 100 \<le> 100"
    and "0 < b + s"
proof -
  show pos: "0 < b + s" using assms by linarith
  show "max (b / (b + s) * 100) (s / (b + s) * 100) = max b s / (b + s) * 100"
    using pos by (simp add: max_def divide_le_cancel)
  define r where "r = max b s / (b + s)"
  have "b + s \<le> 2 * max b s" by (simp add: max_def)
  then have "1 / 2 \<le> r" using pos by (simp add: r_def field_simps)
  then have "50 \<le> r * 100" by linarith
  then show "50 \<le> max b s / (b + s) * 100" by (simp add: r_def)
  have "max b s \<le> b + s" using assms by (simp add: max_def)
  then have "r \<le> 1" using pos by (simp add: r_def)
  then have "r * 100 \<le> 100" by linarith
  then show "max b s / (b + s) * 100 \<le> 100" by (simp add: r_def)
qed

lemma sum_list_nonneg': "(\<And>x. x \<in> set xs \<Longrightarrow> 0 \<le> f x) \<Longrightarrow> 0 \<le> sum_list (map f xs :: real list)"
  by (induction xs) auto

lemma trades_feed_subset:
  "trades s = [] \<Longrightarrow> set (trades (feed evs s)) \<subseteq> trade_of ` set evs"
proof (induction evs rule: rev_induct)
  case Nil then show ?case by (simp add: feed_def)
next
  case (snoc e evs)
  then show ?case by (auto simp: feed_snoc trades_addTrade)
qed

lemma dominance_mvp:
  assumes "trades s0 = []" "\<forall>e\<in>set evs. 0 < ev_p e \<and> 0 < ev_q e"
    and "getStats (feed evs s0) = Some st"
  shows "0 < totalVolume st \<and> dominance st = max (buyVolume st) (sellVolume st) / totalVolume st * 100
       \<and> 50 \<le> dominance st \<and> dominance st \<le> 100"
proof -
  let ?s = "feed evs s0"
  have nn: "0 \<le> buyVol t \<and> 0 \<le> sellVol t" if mem: "t \<in> set (trades ?s)" for t
  proof -
    obtain e where e: "e \<in> set evs" "t = trade_of e"
      using trades_feed_subset[OF assms(1), of evs] mem by blast
    have "0 \<le> ev_p e * ev_q e" using assms(2) e(1) by (simp add: less_imp_le)
    then show ?thesis by (simp add: e(2) trade_of_def)
  qed
  note g = getStats_Some_iff[OF assms(3)]
  have b: "0 \<le> buyVolume st" using g nn by (simp add: sum_list_nonneg')
  have s: "0 \<le> sellVolume st" using g nn by (simp add: sum_list_nonneg')
  have t: "buyVolume st + sellVolume st \<noteq> 0" using g by simp
  show ?thesis using dominance_bounds[OF b s t] g by simp
qed



lemma getStats_stable_Some:
  assumes "getStats_stable sy now agg = Some ss"
  defines "c \<equiv> now - windowSeconds_stable agg * 1000"
  shows "buyVolumeUSD ss = notional (active c (buys_of agg sy))"
    and "sellVolumeUSD ss = notional (active c (sells_of agg sy))"
    and "totalVolumeUSD ss = buyVolumeUSD ss + sellVolumeUSD ss"
    and "totalVolumeUSD ss \<noteq> 0"
    and "buyDominance ss = buyVolumeUSD ss / totalVolumeUSD ss * 100"
    and "sellDominance ss = sellVolumeUSD ss / totalVolumeUSD ss * 100"
    and "ss_dominantSide ss = (if buyDominance ss > sellDominance ss then Buy else Sell)"
    and "active c (buys_of agg sy) @ active c (sells_of agg sy) \<noteq> []"
    and "ss_priceChange ss =
           (Max (tick_price ` set (active c (buys_of agg sy) @ active c (sells_of agg sy)))
            - Min (tick_price ` set (active c (buys_of agg sy) @ active c (sells_of agg sy))))
           / Min (tick_price ` set (active c (buys_of agg sy) @ active c (sells_of agg sy))) * 100"
proof -
  obtain data where d: "trades_stable agg sy = Some data"
    using assms(1) by (cases "trades_stable agg sy") (simp_all add: getStats_stable_def)
  let ?ab = "active c (buys data)" and ?as = "active c (sells data)"
  have bo: "buys_of agg sy = buys data" "sells_of agg sy = sells data"
    by (simp_all add: buys_of_def sells_of_def d)
  have ne: "\<not> (?ab = [] \<and> ?as = [])"
    using assms(1) d by (auto simp: getStats_stable_def Let_def active_def c_def split: if_splits)
  then obtain x xs where px: "map tick_price (?ab @ ?as) = x # xs"
    by (cases "map tick_price (?ab @ ?as)") auto
  have mx: "fold max xs x = Max (tick_price ` set (?ab @ ?as))"
    using Max.set_eq_fold[of x xs] px by (metis set_map)
  have mn: "fold min xs x = Min (tick_price ` set (?ab @ ?as))"
    using Min.set_eq_fold[of x xs] px by (metis set_map)
  have px': "map tick_price (filter (\<lambda>t. c < tick_time t) (buys data))
           @ map tick_price (filter (\<lambda>t. c < tick_time t) (sells data)) = x # xs"
    using px by (simp add: active_def)
  have tot: "notional ?ab + notional ?as \<noteq> 0"
    using assms(1) d ne
    by (auto simp: getStats_stable_def Let_def active_def notional_def fold_add_sum c_def split: if_splits)
  have eq: "ss = \<lparr>ss_symbol = sy,
       totalVolumeUSD = notional ?ab + notional ?as,
       buyVolumeUSD = notional ?ab,
       sellVolumeUSD = notional ?as,
       buyDominance = notional ?ab / (notional ?ab + notional ?as) * 100,
       sellDominance = notional ?as / (notional ?ab + notional ?as) * 100,
       ss_dominantSide = (if notional ?ab / (notional ?ab + notional ?as) * 100
                              > notional ?as / (notional ?ab + notional ?as) * 100 then Buy else Sell),
       ss_priceChange = ((fold max xs x - fold min xs x) / fold min xs x) * 100,
       ss_tradeCount = length ?ab + length ?as,
       ss_windowSeconds = windowSeconds_stable agg\<rparr>"
    using assms(1) d ne tot px'
    by (simp add: getStats_stable_def Let_def active_def notional_def fold_add_sum c_def
          split: if_splits)
  show "buyVolumeUSD ss = notional (active c (buys_of agg sy))" by (simp add: eq bo)
  show "sellVolumeUSD ss = notional (active c (sells_of agg sy))" by (simp add: eq bo)
  show "totalVolumeUSD ss = buyVolumeUSD ss + sellVolumeUSD ss" by (simp add: eq)
  show "totalVolumeUSD ss \<noteq> 0" using tot by (simp add: eq)
  show "buyDominance ss = buyVolumeUSD ss / totalVolumeUSD ss * 100" by (simp add: eq)
  show "sellDominance ss = sellVolumeUSD ss / totalVolumeUSD ss * 100" by (simp add: eq)
  show "ss_dominantSide ss = (if buyDominance ss > sellDominance ss then Buy else Sell)" by (simp add: eq)
  show "active c (buys_of agg sy) @ active c (sells_of agg sy) \<noteq> []" using ne by (simp add: bo)
  show "ss_priceChange ss =
           (Max (tick_price ` set (active c (buys_of agg sy) @ active c (sells_of agg sy)))
            - Min (tick_price ` set (active c (buys_of agg sy) @ active c (sells_of agg sy))))
           / Min (tick_price ` set (active c (buys_of agg sy) @ active c (sells_of agg sy))) * 100"
    unfolding bo mx[symmetric] mn[symmetric] by (simp add: eq)
qed

lemma getStats_stable_None:
  "getStats_stable sy now agg = None \<longleftrightarrow>
     (let c = now - windowSeconds_stable agg * 1000 in
      (active c (buys_of agg sy) = [] \<and> active c (sells_of agg sy) = [])
      \<or> notional (active c (buys_of agg sy)) + notional (active c (sells_of agg sy)) = 0)"
  using getStats_stable_total'[of sy now agg]
  by (auto simp: Let_def active_def notional_def split: if_splits)


lemma active_subset: "set (active c ts) \<subseteq> set ts"
  by (auto simp: active_def)

lemma buys_sells_feed_subset:
  assumes "trades_stable agg = Map.empty"
  shows "set (buys_of (feed_stable evs agg) sy) \<subseteq> tick_of ` set (events_of_stable sy evs)"
    and "set (sells_of (feed_stable evs agg) sy) \<subseteq> tick_of ` set (events_of_stable sy evs)"
proof (induction evs rule: rev_induct)
  case Nil
  { case 1 show ?case using assms by (simp add: feed_stable_def buys_of_def) }
  { case 2 show ?case using assms by (simp add: feed_stable_def sells_of_def) }
next
  case (snoc x evs)
  obtain sy' e now where x: "x = (sy', e, now)" by (cases x)
  { case 1 show ?case using snoc.IH(1)
      unfolding x feed_stable_snoc buys_of_addTrade by (auto simp: events_of_stable_def) }
  { case 2 show ?case using snoc.IH(2)
      unfolding x feed_stable_snoc sells_of_addTrade by (auto simp: events_of_stable_def) }
qed

lemma notional_nonneg:
  "(\<And>t. t \<in> set ts \<Longrightarrow> 0 \<le> tick_price t * tick_qty t) \<Longrightarrow> 0 \<le> notional ts"
  unfolding notional_def by (rule sum_list_nonneg') simp

lemma dominance_stable_eq:
  "getStats_stable sy now agg = Some ss \<Longrightarrow>
   dominance_stable ss = max (buyDominance ss) (sellDominance ss)"
  using getStats_stable_Some(7)[of sy now agg ss]
  by (simp add: dominance_stable_def max_def)

lemma dominance_of_stable:
  assumes "trades_stable agg = Map.empty" "\<forall>x\<in>set evs. 0 < ev_p (fst (snd x)) \<and> 0 < ev_q (fst (snd x))"
    and "getStats_stable sy now (feed_stable evs agg) = Some ss"
  shows "0 < totalVolumeUSD ss
       \<and> dominance_stable ss = max (buyVolumeUSD ss) (sellVolumeUSD ss) / totalVolumeUSD ss * 100
       \<and> 50 \<le> dominance_stable ss \<and> dominance_stable ss \<le> 100"
proof -
  let ?agg = "feed_stable evs agg"
  let ?c = "now - windowSeconds_stable ?agg * 1000"
  have pos: "0 \<le> tick_price t * tick_qty t" if mem: "t \<in> tick_of ` set (events_of_stable sy evs)" for t
  proof -
    obtain x where x: "x \<in> set evs" "t = tick_of (fst (snd x))"
      using mem by (auto simp: events_of_stable_def)
    have "0 \<le> ev_p (fst (snd x)) * ev_q (fst (snd x))" using assms(2) x(1) by (simp add: less_imp_le)
    then show ?thesis by (simp add: x(2) tick_of_def)
  qed
  note g = getStats_stable_Some[OF assms(3)]
  have b: "0 \<le> buyVolumeUSD ss"
    unfolding g(1) using buys_sells_feed_subset(1)[OF assms(1), of evs sy] active_subset[of ?c] pos
    by (intro notional_nonneg) blast
  have s: "0 \<le> sellVolumeUSD ss"
    unfolding g(2) using buys_sells_feed_subset(2)[OF assms(1), of evs sy] active_subset[of ?c] pos
    by (intro notional_nonneg) blast
  have t: "buyVolumeUSD ss + sellVolumeUSD ss \<noteq> 0" using g(3,4) by simp
  show ?thesis
    using dominance_bounds[OF b s t] dominance_stable_eq[OF assms(3)] g(3,5,6) by simp
qed


lemma tie_mvp:
  assumes "sum_list (map buyVol (trades s)) = sum_list (map sellVol (trades s))"
    and "0 < sum_list (map buyVol (trades s))"
  shows "map_option (\<lambda>st. (dominantSide st, dominance st)) (getStats s) = Some (Sell, 50)"
proof -
  have "getStats s \<noteq> None" using assms by (auto simp: getStats_None_iff)
  then obtain st where st: "getStats s = Some st" by auto
  note g = getStats_Some_iff[OF st]
  have e: "buyVolume st = sellVolume st" "0 < buyVolume st" using g assms by simp_all
  have "dominantSide st = Sell" using g e by simp
  moreover have "dominance st = 50" using g e by (simp add: field_simps)
  ultimately show ?thesis by (simp add: st)
qed

lemma tie_stable:
  assumes "notional (active (now - windowSeconds_stable agg * 1000) (buys_of agg sy))
         = notional (active (now - windowSeconds_stable agg * 1000) (sells_of agg sy))"
    and "0 < notional (active (now - windowSeconds_stable agg * 1000) (buys_of agg sy))"
  shows "map_option (\<lambda>ss. (ss_dominantSide ss, dominance_stable ss)) (getStats_stable sy now agg)
           = Some (Sell, 50)"
proof -
  have "getStats_stable sy now agg \<noteq> None"
    using assms by (auto simp: getStats_stable_None Let_def notional_def)
  then obtain ss where ss: "getStats_stable sy now agg = Some ss" by auto
  note g = getStats_stable_Some[OF ss]
  have e: "buyVolumeUSD ss = sellVolumeUSD ss" "0 < buyVolumeUSD ss" using g(1,2) assms by simp_all
  have d: "buyDominance ss = 50" "sellDominance ss = 50"
    using g(3,5,6) e by (simp_all add: field_simps)
  have "ss_dominantSide ss = Sell" using g(7) d by simp
  moreover have "dominance_stable ss = 50" using d by (simp add: dominance_stable_def)
  ultimately show ?thesis by (simp add: ss)
qed

lemma feed_nonempty:
  assumes "evs \<noteq> []" "0 \<le> windowMs s0"
  shows "trades (feed evs s0) \<noteq> []"
    and "last (trades (feed evs s0)) = trade_of (last evs)"
    and "firstPrice (feed evs s0) = Some (price (hd (trades (feed evs s0))))"
    and "lastPrice (feed evs s0) = Some (price (last (trades (feed evs s0))))"
proof -
  obtain es e where evs: "evs = es @ [e]" using assms(1) by (metis rev_exhaust)
  let ?p = "feed es s0"
  have w: "windowMs ?p = windowMs s0" by (rule windowMs_feed)
  have keep: "ev_T e - windowMs ?p \<le> timestamp (trade_of e)"
    using assms(2) by (simp add: w trade_of_def)
  have tr: "trades (feed evs s0) =
      filter (\<lambda>t. ev_T e - windowMs ?p \<le> timestamp t) (trades ?p) @ [trade_of e]"
    unfolding evs feed_snoc trades_addTrade using keep by simp
  show ne: "trades (feed evs s0) \<noteq> []" by (simp add: tr)
  show l: "last (trades (feed evs s0)) = trade_of (last evs)" unfolding tr by (simp add: evs)
  show "firstPrice (feed evs s0) = Some (price (hd (trades (feed evs s0))))"
    using ne unfolding evs feed_snoc firstPrice_addTrade by (simp split: list.splits)
  show "lastPrice (feed evs s0) = Some (price (last (trades (feed evs s0))))"
    unfolding l unfolding evs feed_snoc lastPrice_addTrade by (simp add: trade_of_def)
qed

lemma priceChange_mvp:
  assumes "evs \<noteq> []" "0 \<le> windowMs s0" "trades s0 = []" "\<forall>e\<in>set evs. 0 < ev_p e"
    and "getStats (feed evs s0) = Some st"
  shows "priceChange st =
     (price (last (trades (feed evs s0))) - price (hd (trades (feed evs s0))))
       / price (hd (trades (feed evs s0))) * 100"
proof -
  note f = feed_nonempty[OF assms(1,2)]
  have "hd (trades (feed evs s0)) \<in> trade_of ` set evs"
    using trades_feed_subset[OF assms(3), of evs] f(1) hd_in_set by blast
  then have "price (hd (trades (feed evs s0))) \<noteq> 0"
    using assms(4) by (auto simp: trade_of_def)
  then show ?thesis using getStats_Some_iff[OF assms(5)] by (simp add: f(3,4))
qed

lemma priceChange_stable:
  assumes "trades_stable agg = Map.empty" "\<forall>x\<in>set evs. 0 < ev_p (fst (snd x))"
    and "getStats_stable sy now (feed_stable evs agg) = Some ss"
  defines "P \<equiv> tick_price ` set (active (now - windowSeconds_stable agg * 1000) (buys_of (feed_stable evs agg) sy)
                              @ active (now - windowSeconds_stable agg * 1000) (sells_of (feed_stable evs agg) sy))"
  shows "ss_priceChange ss = (Max P - Min P) / Min P * 100" and "0 \<le> ss_priceChange ss"
proof -
  note g = getStats_stable_Some[OF assms(3), unfolded ws_feed_stable]
  show eq: "ss_priceChange ss = (Max P - Min P) / Min P * 100" using g(9) by (simp add: P_def)
  have fin: "finite P" "P \<noteq> {}" using g(8) by (auto simp: P_def)
  have pos: "0 < p" if mem: "p \<in> P" for p
  proof -
    have "p \<in> tick_price ` tick_of ` set (events_of_stable sy evs)"
      using mem buys_sells_feed_subset[OF assms(1), of evs sy] active_subset
      unfolding P_def by fastforce
    then obtain x where "x \<in> set evs" "p = ev_p (fst (snd x))"
      by (auto simp: events_of_stable_def tick_of_def)
    then show ?thesis using assms(2) by simp
  qed
  have "0 < Min P" using fin pos by simp
  moreover have "Min P \<le> Max P" using fin by (simp add: Min_le_iff)
  ultimately show "0 \<le> ss_priceChange ss" unfolding eq by simp
qed

section \<open>Claim C1: the volume of the window\<close>

text \<open>
  Claim C1, as stated, fails on the STABLE aggregator, whose cutoff is the wall clock
  minus the window and is strict. Two buys of symbol ADAUSDT with event times 990400
  and 1170000 are handled half a second after their event times, and the snapshot is
  taken when the second one is handled: the snapshot's total is 100, where the sum over
  the trades no older than the latest event time minus 180 s is 300.
\<close>

theorem window_volume_counterexample:
  "map_option totalVolumeUSD
     (getStats_stable ''ADAUSDT'' 1170500
        (feed_stable
           [(''ADAUSDT'', \<lparr>ev_T = 990400, ev_p = 2, ev_q = 100, ev_m = False\<rparr>, 990900),
            (''ADAUSDT'', \<lparr>ev_T = 1170000, ev_p = 2, ev_q = 50, ev_m = False\<rparr>, 1170500)]
           (TradeAggregator_new_stable 180))) = Some 100
   \<and> spec_totalVolume (180 * 1000)
        [\<lparr>ev_T = 990400, ev_p = 2, ev_q = 100, ev_m = False\<rparr>,
         \<lparr>ev_T = 1170000, ev_p = 2, ev_q = 50, ev_m = False\<rparr>] = 300"
  by (simp add: getStats_stable_def feed_stable_def addTrade_stable_def
        TradeAggregator_new_stable_def spec_totalVolume_def spec_window_def Let_def)

text \<open>
  The MVP Enhanced aggregator meets the claim only on timestamps that do not decrease:
  a trade that arrives with an older timestamp moves the cutoff back, and trades evicted
  before it stay evicted.
\<close>

lemma window_volume_out_of_order:
  "map_option totalVolume
     (getStats_mvp ''ADAUSDT''
        (feed_mvp
           [(''ADAUSDT'', \<lparr>ev_T = 50000, ev_p = 1, ev_q = 1, ev_m = False\<rparr>),
            (''ADAUSDT'', \<lparr>ev_T = 100000, ev_p = 1, ev_q = 1, ev_m = False\<rparr>),
            (''ADAUSDT'', \<lparr>ev_T = 55000, ev_p = 1, ev_q = 1, ev_m = False\<rparr>)]
           (TradeAggregator_new_mvp 10))) = Some 2
   \<and> spec_totalVolume (10 * 1000)
        [\<lparr>ev_T = 50000, ev_p = 1, ev_q = 1, ev_m = False\<rparr>,
         \<lparr>ev_T = 100000, ev_p = 1, ev_q = 1, ev_m = False\<rparr>,
         \<lparr>ev_T = 55000, ev_p = 1, ev_q = 1, ev_m = False\<rparr>] = 3"
  by (simp add: getStats_mvp_def feed_mvp_def addTrade_mvp_def addTrade_def cleanup_def getStats_def
        TradeAggregator_new_mvp_def SymbolState_new_def spec_totalVolume_def spec_window_def Let_def)

text \<open>
  Claim C1, amended. MVP Enhanced aggregator: for every run from a new aggregator in
  which the timestamps of a symbol's trades do not decrease, \<^verbatim>\<open>getStats(symbol)\<close>
  is null when the sum of price times quantity over the symbol's trades with timestamp
  at least the latest timestamp minus the window is zero, and otherwise reports exactly
  that sum as \<^verbatim>\<open>totalVolume\<close>; the clock is the trade timestamp. STABLE aggregator:
  for every run in which no message is handled after the snapshot's wall-clock time,
  \<^verbatim>\<open>getStats(symbol)\<close> at wall-clock time \<open>now\<close> is null when the sum over the
  symbol's trades with event time strictly later than \<open>now\<close> minus the window is zero,
  and otherwise reports that sum as \<^verbatim>\<open>totalVolumeUSD\<close>.
\<close>

theorem window_volume:
  "(sorted (map ev_T (events_of sy evs)) \<longrightarrow>
      map_option totalVolume (getStats_mvp sy (feed_mvp evs (TradeAggregator_new_mvp ws))) =
        (if spec_totalVolume (ws * 1000) (events_of sy evs) = 0 then None
         else Some (spec_totalVolume (ws * 1000) (events_of sy evs))))
   \<and> ((\<forall>x\<in>set evs'. snd (snd x) \<le> now) \<longrightarrow>
      map_option totalVolumeUSD
          (getStats_stable sy now (feed_stable evs' (TradeAggregator_new_stable ws))) =
        (let v = sum_list (map (\<lambda>e. ev_p e * ev_q e)
                    (wallclock_window (now - ws * 1000) (events_of_stable sy evs')))
         in if v = 0 then None else Some v))"
  using window_volume_mvp [of sy evs ws] window_volume_stable [of evs' now sy ws]
  by blast

theorem window_volume_witness:
  "sorted (map ev_T (events_of ''ADAUSDT''
       [(''ADAUSDT'', \<lparr>ev_T = 1000, ev_p = 2, ev_q = 100, ev_m = False\<rparr>),
        (''XRPUSDT'', \<lparr>ev_T = 500, ev_p = 7, ev_q = 1, ev_m = False\<rparr>),
        (''ADAUSDT'', \<lparr>ev_T = 200000, ev_p = 2, ev_q = 50, ev_m = True\<rparr>),
        (''ADAUSDT'', \<lparr>ev_T = 201000, ev_p = 3, ev_q = 10, ev_m = False\<rparr>)]))
   \<and> map_option totalVolume (getStats_mvp ''ADAUSDT'' (feed_mvp
       [(''ADAUSDT'', \<lparr>ev_T = 1000, ev_p = 2, ev_q = 100, ev_m = False\<rparr>),
        (''XRPUSDT'', \<lparr>ev_T = 500, ev_p = 7, ev_q = 1, ev_m = False\<rparr>),
        (''ADAUSDT'', \<lparr>ev_T = 200000, ev_p = 2, ev_q = 50, ev_m = True\<rparr>),
        (''ADAUSDT'', \<lparr>ev_T = 201000, ev_p = 3, ev_q = 10, ev_m = False\<rparr>)]
       (TradeAggregator_new_mvp 180))) = Some 130
   \<and> (1200 :: real) \<le> 200300 \<and> (200300 :: real) \<le> 200300
   \<and> map_option totalVolumeUSD (getStats_stable ''ADAUSDT'' 200300 (feed_stable
       [(''ADAUSDT'', \<lparr>ev_T = 1000, ev_p = 2, ev_q = 100, ev_m = False\<rparr>, 1200),
        (''ADAUSDT'', \<lparr>ev_T = 200000, ev_p = 2, ev_q = 50, ev_m = True\<rparr>, 200300)]
       (TradeAggregator_new_stable 180))) = Some 100"
  using window_volume [of "''ADAUSDT''"
       "[(''ADAUSDT'', \<lparr>ev_T = 1000, ev_p = 2, ev_q = 100, ev_m = False\<rparr>),
        (''XRPUSDT'', \<lparr>ev_T = 500, ev_p = 7, ev_q = 1, ev_m = False\<rparr>),
        (''ADAUSDT'', \<lparr>ev_T = 200000, ev_p = 2, ev_q = 50, ev_m = True\<rparr>),
        (''ADAUSDT'', \<lparr>ev_T = 201000, ev_p = 3, ev_q = 10, ev_m = False\<rparr>)]"
       180
       "[(''ADAUSDT'', \<lparr>ev_T = 1000, ev_p = 2, ev_q = 100, ev_m = False\<rparr>, 1200),
        (''ADAUSDT'', \<lparr>ev_T = 200000, ev_p = 2, ev_q = 50, ev_m = True\<rparr>, 200300)]"
       200300]
  by (simp add: events_of_def events_of_stable_def spec_totalVolume_def spec_window_def
        wallclock_window_def Let_def)

section \<open>Claim C6: the range of the dominance\<close>

text \<open>
  Claim C6. Trade events have positive price and quantity (the data model's invariant).
  In both programs, whenever the snapshot of a run of such events is non-null, its total
  volume is positive and its dominance equals max(buy, sell) / total * 100 and lies
  between 50 and 100; a window with no surviving trade, or with zero total volume, yields
  null. The STABLE snapshot has no dominance field: its dominance is the figure of the
  dominant side, as \<^verbatim>\<open>checkSignal\<close> reads it.
\<close>

theorem dominance_range:
  "(trades s0 = [] \<and> (\<forall>e\<in>set evs. 0 < ev_p e \<and> 0 < ev_q e)
      \<and> getStats (feed evs s0) = Some st \<longrightarrow>
        0 < totalVolume st
        \<and> dominance st = max (buyVolume st) (sellVolume st) / totalVolume st * 100
        \<and> 50 \<le> dominance st \<and> dominance st \<le> 100)
   \<and> (trades s = []
        \<or> sum_list (map buyVol (trades s)) + sum_list (map sellVol (trades s)) = 0 \<longrightarrow>
        getStats s = None)
   \<and> (trades_stable agg0 = Map.empty
      \<and> (\<forall>x\<in>set evs'. 0 < ev_p (fst (snd x)) \<and> 0 < ev_q (fst (snd x)))
      \<and> getStats_stable sy now (feed_stable evs' agg0) = Some ss \<longrightarrow>
        0 < totalVolumeUSD ss
        \<and> dominance_stable ss = max (buyVolumeUSD ss) (sellVolumeUSD ss) / totalVolumeUSD ss * 100
        \<and> 50 \<le> dominance_stable ss \<and> dominance_stable ss \<le> 100)
   \<and> ((active (now - windowSeconds_stable agg * 1000) (buys_of agg sy) = []
         \<and> active (now - windowSeconds_stable agg * 1000) (sells_of agg sy) = [])
        \<or> notional (active (now - windowSeconds_stable agg * 1000) (buys_of agg sy))
           + notional (active (now - windowSeconds_stable agg * 1000) (sells_of agg sy)) = 0 \<longrightarrow>
        getStats_stable sy now agg = None)"
proof (intro conjI impI)
  assume "trades s = [] \<or> sum_list (map buyVol (trades s)) + sum_list (map sellVol (trades s)) = 0"
  then show "getStats s = None" by (simp add: getStats_None_iff)
next
  assume "(active (now - windowSeconds_stable agg * 1000) (buys_of agg sy) = []
         \<and> active (now - windowSeconds_stable agg * 1000) (sells_of agg sy) = [])
        \<or> notional (active (now - windowSeconds_stable agg * 1000) (buys_of agg sy))
           + notional (active (now - windowSeconds_stable agg * 1000) (sells_of agg sy)) = 0"
  then show "getStats_stable sy now agg = None" by (simp add: getStats_stable_None Let_def)
qed (use dominance_mvp [of s0 evs st] dominance_of_stable [of agg0 evs' sy now ss] in blast)+

theorem dominance_range_witness:
  "map_option dominance
     (getStats (feed [\<lparr>ev_T = 1000, ev_p = 2, ev_q = 100, ev_m = False\<rparr>,
                      \<lparr>ev_T = 2000, ev_p = 2, ev_q = 50, ev_m = True\<rparr>]
                (SymbolState_new ''ADAUSDT'' 180))) = Some (200 / 3)
   \<and> getStats (SymbolState_new ''ADAUSDT'' 180) = None
   \<and> map_option dominance_stable
       (getStats_stable ''ADAUSDT'' 2500
          (feed_stable [(''ADAUSDT'', \<lparr>ev_T = 1000, ev_p = 2, ev_q = 100, ev_m = False\<rparr>, 1100),
                        (''ADAUSDT'', \<lparr>ev_T = 2000, ev_p = 2, ev_q = 50, ev_m = True\<rparr>, 2100)]
             (TradeAggregator_new_stable 180))) = Some (200 / 3)
   \<and> getStats_stable ''ADAUSDT'' 2500 (TradeAggregator_new_stable 180) = None"
  using dominance_range [of "SymbolState_new ''ADAUSDT'' 180"
      "[\<lparr>ev_T = 1000, ev_p = 2, ev_q = 100, ev_m = False\<rparr>,
        \<lparr>ev_T = 2000, ev_p = 2, ev_q = 50, ev_m = True\<rparr>]"
      "the (getStats (feed [\<lparr>ev_T = 1000, ev_p = 2, ev_q = 100, ev_m = False\<rparr>,
                      \<lparr>ev_T = 2000, ev_p = 2, ev_q = 50, ev_m = True\<rparr>]
                (SymbolState_new ''ADAUSDT'' 180)))"
      "SymbolState_new ''ADAUSDT'' 180"
      "TradeAggregator_new_stable 180"
      "[(''ADAUSDT'', \<lparr>ev_T = 1000, ev_p = 2, ev_q = 100, ev_m = False\<rparr>, 1100),
        (''ADAUSDT'', \<lparr>ev_T = 2000, ev_p = 2, ev_q = 50, ev_m = True\<rparr>, 2100)]"
      "''ADAUSDT''" 2500
      "the (getStats_stable ''ADAUSDT'' 2500
          (feed_stable [(''ADAUSDT'', \<lparr>ev_T = 1000, ev_p = 2, ev_q = 100, ev_m = False\<rparr>, 1100),
                        (''ADAUSDT'', \<lparr>ev_T = 2000, ev_p = 2, ev_q = 50, ev_m = True\<rparr>, 2100)]
             (TradeAggregator_new_stable 180)))"
      "TradeAggregator_new_stable 180"]
  by (simp add: feed_def addTrade_def cleanup_def getStats_def SymbolState_new_def
        getStats_stable_def feed_stable_def addTrade_stable_def TradeAggregator_new_stable_def
        dominance_stable_def buys_of_def sells_of_def active_def Let_def)

section \<open>Claim C10: the tie between buy and sell volume\<close>

text \<open>
  Claim C10. In both programs, when the surviving buy volume equals the surviving sell
  volume and both are positive, the snapshot is non-null, its dominant side is the sell
  side and its dominance is exactly 50.
\<close>

theorem tie_is_sell_at_50:
  "(sum_list (map buyVol (trades s)) = sum_list (map sellVol (trades s))
      \<and> 0 < sum_list (map buyVol (trades s)) \<longrightarrow>
        map_option (\<lambda>st. (dominantSide st, dominance st)) (getStats s) = Some (Sell, 50))
   \<and> (notional (active (now - windowSeconds_stable agg * 1000) (buys_of agg sy))
        = notional (active (now - windowSeconds_stable agg * 1000) (sells_of agg sy))
      \<and> 0 < notional (active (now - windowSeconds_stable agg * 1000) (buys_of agg sy)) \<longrightarrow>
        map_option (\<lambda>ss. (ss_dominantSide ss, dominance_stable ss)) (getStats_stable sy now agg)
          = Some (Sell, 50))"
  using tie_mvp [of s] tie_stable [of now agg sy] by blast

theorem tie_is_sell_at_50_witness:
  "map_option (\<lambda>st. (dominantSide st, dominance st))
     (getStats (feed [\<lparr>ev_T = 1000, ev_p = 2, ev_q = 100, ev_m = False\<rparr>,
                      \<lparr>ev_T = 2000, ev_p = 4, ev_q = 50, ev_m = True\<rparr>]
                (SymbolState_new ''ADAUSDT'' 180))) = Some (Sell, 50)
   \<and> map_option (\<lambda>ss. (ss_dominantSide ss, dominance_stable ss))
       (getStats_stable ''ADAUSDT'' 2500
          (feed_stable [(''ADAUSDT'', \<lparr>ev_T = 1000, ev_p = 2, ev_q = 100, ev_m = False\<rparr>, 1100),
                        (''ADAUSDT'', \<lparr>ev_T = 2000, ev_p = 4, ev_q = 50, ev_m = True\<rparr>, 2100)]
             (TradeAggregator_new_stable 180))) = Some (Sell, 50)"
  using tie_is_sell_at_50 [of
      "feed [\<lparr>ev_T = 1000, ev_p = 2, ev_q = 100, ev_m = False\<rparr>,
             \<lparr>ev_T = 2000, ev_p = 4, ev_q = 50, ev_m = True\<rparr>]
         (SymbolState_new ''ADAUSDT'' 180)"
      2500
      "feed_stable [(''ADAUSDT'', \<lparr>ev_T = 1000, ev_p = 2, ev_q = 100, ev_m = False\<rparr>, 1100),
                    (''ADAUSDT'', \<lparr>ev_T = 2000, ev_p = 4, ev_q = 50, ev_m = True\<rparr>, 2100)]
         (TradeAggregator_new_stable 180)"
      "''ADAUSDT''"]
  by (simp add: feed_def addTrade_def cleanup_def SymbolState_new_def
        feed_stable_def addTrade_stable_def TradeAggregator_new_stable_def
        buys_of_def sells_of_def active_def notional_def Let_def)

section \<open>Claim C7: the price change\<close>

text \<open>
  Claim C7, as stated, fails on the STABLE aggregator, whose price change is the range
  of the surviving prices over their minimum. A trade at 100 followed by a trade at 99:
  the snapshot reports 100/99 (about +1.01), where last minus first over first is -1.
\<close>

theorem priceChange_counterexample:
  "map_option ss_priceChange
     (getStats_stable ''ADAUSDT'' 2500
        (feed_stable [(''ADAUSDT'', \<lparr>ev_T = 1000, ev_p = 100, ev_q = 1, ev_m = False\<rparr>, 1100),
                      (''ADAUSDT'', \<lparr>ev_T = 2000, ev_p = 99, ev_q = 1, ev_m = False\<rparr>, 2100)]
           (TradeAggregator_new_stable 180))) = Some (100 / 99)
   \<and> spec_priceChange 100 99 = - 1"
  by (simp add: getStats_stable_def feed_stable_def addTrade_stable_def
        TradeAggregator_new_stable_def spec_priceChange_def Let_def)

text \<open>
  Claim C7, amended. MVP Enhanced program: for every non-empty run of trades with
  positive prices fed to a \<open>SymbolState\<close> that held no trade, with a window that is
  not negative, a non-null snapshot's \<^verbatim>\<open>priceChange\<close> is (last - first) / first * 100,
  signed, where first and last are the prices of the first and the last trade the state
  still holds. STABLE program: a non-null snapshot's \<^verbatim>\<open>priceChange\<close> is
  (max - min) / min * 100 over the prices of the surviving trades, and is never negative.
\<close>

theorem priceChange_of_window:
  "(evs \<noteq> [] \<and> 0 \<le> windowMs s0 \<and> trades s0 = [] \<and> (\<forall>e\<in>set evs. 0 < ev_p e)
      \<and> getStats (feed evs s0) = Some st \<longrightarrow>
        priceChange st =
          spec_priceChange (price (hd (trades (feed evs s0)))) (price (last (trades (feed evs s0)))))
   \<and> (trades_stable agg0 = Map.empty \<and> (\<forall>x\<in>set evs'. 0 < ev_p (fst (snd x)))
      \<and> getStats_stable sy now (feed_stable evs' agg0) = Some ss \<longrightarrow>
        ss_priceChange ss =
          (Max (tick_price ` set (active (now - windowSeconds_stable agg0 * 1000)
                                     (buys_of (feed_stable evs' agg0) sy)
                                  @ active (now - windowSeconds_stable agg0 * 1000)
                                      (sells_of (feed_stable evs' agg0) sy)))
           - Min (tick_price ` set (active (now - windowSeconds_stable agg0 * 1000)
                                     (buys_of (feed_stable evs' agg0) sy)
                                  @ active (now - windowSeconds_stable agg0 * 1000)
                                      (sells_of (feed_stable evs' agg0) sy))))
          / Min (tick_price ` set (active (now - windowSeconds_stable agg0 * 1000)
                                     (buys_of (feed_stable evs' agg0) sy)
                                  @ active (now - windowSeconds_stable agg0 * 1000)
                                      (sells_of (feed_stable evs' agg0) sy))) * 100
        \<and> 0 \<le> ss_priceChange ss)"
  using priceChange_mvp [of evs s0 st] priceChange_stable [of agg0 evs' sy now ss]
  unfolding spec_priceChange_def by blast

theorem priceChange_of_window_witness:
  "map_option priceChange
     (getStats (feed [\<lparr>ev_T = 1000, ev_p = 100, ev_q = 1, ev_m = False\<rparr>,
                      \<lparr>ev_T = 2000, ev_p = 99, ev_q = 1, ev_m = False\<rparr>]
                (SymbolState_new ''ADAUSDT'' 180))) = Some (- 1)
   \<and> map_option ss_priceChange
     (getStats_stable ''ADAUSDT'' 2500
        (feed_stable [(''ADAUSDT'', \<lparr>ev_T = 1000, ev_p = 100, ev_q = 1, ev_m = False\<rparr>, 1100),
                      (''ADAUSDT'', \<lparr>ev_T = 2000, ev_p = 99, ev_q = 1, ev_m = False\<rparr>, 2100)]
           (TradeAggregator_new_stable 180))) = Some (100 / 99)"
  using priceChange_of_window [of
      "[\<lparr>ev_T = 1000, ev_p = 100, ev_q = 1, ev_m = False\<rparr>,
        \<lparr>ev_T = 2000, ev_p = 99, ev_q = 1, ev_m = False\<rparr>]"
      "SymbolState_new ''ADAUSDT'' 180"
      "the (getStats (feed [\<lparr>ev_T = 1000, ev_p = 100, ev_q = 1, ev_m = False\<rparr>,
                      \<lparr>ev_T = 2000, ev_p = 99, ev_q = 1, ev_m = False\<rparr>]
                (SymbolState_new ''ADAUSDT'' 180)))"
      "TradeAggregator_new_stable 180"
      "[(''ADAUSDT'', \<lparr>ev_T = 1000, ev_p = 100, ev_q = 1, ev_m = False\<rparr>, 1100),
        (''ADAUSDT'', \<lparr>ev_T = 2000, ev_p = 99, ev_q = 1, ev_m = False\<rparr>, 2100)]"
      "''ADAUSDT''" 2500
      "the (getStats_stable ''ADAUSDT'' 2500
        (feed_stable [(''ADAUSDT'', \<lparr>ev_T = 1000, ev_p = 100, ev_q = 1, ev_m = False\<rparr>, 1100),
                      (''ADAUSDT'', \<lparr>ev_T = 2000, ev_p = 99, ev_q = 1, ev_m = False\<rparr>, 2100)]
           (TradeAggregator_new_stable 180)))"]
  by (simp add: feed_def addTrade_def cleanup_def getStats_def SymbolState_new_def
        getStats_stable_def feed_stable_def addTrade_stable_def TradeAggregator_new_stable_def
        spec_priceChange_def Let_def)

section \<open>Properties of the configuration setters\<close>


lemma set_failure_unchanged:
  "isl (snd (RuntimeConfig_set rc sy param v nv)) \<Longrightarrow> fst (RuntimeConfig_set rc sy param v nv) = rc"
  by (auto simp: RuntimeConfig_set_def Let_def split: option.splits if_splits)






lemma set_success:
  assumes c: "symbolConfigs rc sy = Some c" and p: "param \<in> set validParams"
    and r: "if param = ''minDominance'' then 50 \<le> n \<and> n \<le> 100 else 0 \<le> n"
  shows "RuntimeConfig_set rc sy param v (Some n)
     = (rc\<lparr>symbolConfigs := (symbolConfigs rc)(sy \<mapsto> param_set param n c)\<rparr>,
        Inr (param_get param c, n))"
proof -
  have "param = ''minVolumeUSD'' \<or> param = ''minDominance''
      \<or> param = ''minPriceChange'' \<or> param = ''cooldownMinutes''"
    using p by (simp add: validParams_def)
  then consider "param = ''minVolumeUSD''" | "param = ''minDominance''"
    | "param = ''minPriceChange''" | "param = ''cooldownMinutes''"
    by blast
  then show ?thesis
  proof cases
    case 1
    then have "0 \<le> n" using r by simp
    then show ?thesis using c unfolding 1
      by (simp add: RuntimeConfig_set_def validParams_def Let_def)
  next
    case 2
    then have "50 \<le> n \<and> n \<le> 100" using r by simp
    then show ?thesis using c unfolding 2
      by (simp add: RuntimeConfig_set_def validParams_def Let_def)
  next
    case 3
    then have "0 \<le> n" using r by simp
    then show ?thesis using c unfolding 3
      by (simp add: RuntimeConfig_set_def validParams_def Let_def)
  next
    case 4
    then have "0 \<le> n" using r by simp
    then show ?thesis using c unfolding 4
      by (simp add: RuntimeConfig_set_def validParams_def Let_def)
  qed
qed



lemma enable_disable:
  "RuntimeConfig_enable rc sy =
     (case symbolConfigs rc sy of
        None \<Rightarrow> (rc, Inl (SymbolNotFound sy))
      | Some c \<Rightarrow> (rc\<lparr>symbolConfigs := (symbolConfigs rc)(sy \<mapsto> c\<lparr>enabled := True\<rparr>)\<rparr>, Inr ()))"
  by (simp add: RuntimeConfig_enable_def)








lemma store_ADA:
  "symbolConfigs (RuntimeConfig_new SYMBOL_CONFIGS ADVANCED_FILTERS_mvp) ''ADAUSDT''
     = Some \<lparr>minVolumeUSD = 1000000, minDominance = 65, minPriceChange = 6 / 10,
              cooldownMinutes = 5, enabled = True\<rparr>"
  "symbolConfigs initRuntimeState ''ADAUSDT''
     = Some \<lparr>minVolumeUSD = 1000000, minDominance = 65, minPriceChange = 6 / 10,
              cooldownMinutes = 5, enabled = True\<rparr>"
  "symbolConfigs (RuntimeConfig_new SYMBOL_CONFIGS ADVANCED_FILTERS_mvp) ''FOO'' = None"
  by (simp_all add: RuntimeConfig_new_def SYMBOL_CONFIGS_def initRuntimeState_def)

section \<open>Claim C9: the configuration setters\<close>




section \<open>Claim C4: the cooldown\<close>

lemma canAlert_after_record:
  assumes "getSymbolConfig rc sy = Some config" "T \<noteq> 0" "dominantSide st' = dominantSide st"
  shows "canAlert rc (recordAlert_mvp cm sy st T) sy st' t
           = spec_isEligible T (cooldownMinutes config) t"
  using assms
  by (auto simp: canAlert_def recordAlert_mvp_def Let_def spec_isEligible_def)

lemma isInCooldown_after_record:
  assumes "getSymbolConfig rc0 sy = Some config0" "T + cooldownMinutes config0 * 60 * 1000 \<noteq> 0"
  shows "fst (isInCooldown (recordAlert_stable rc0 cm sy st T) sy (ss_dominantSide st) t)
           = (\<not> spec_isEligible T (cooldownMinutes config0) t)"
  using assms
  by (auto simp: isInCooldown_def recordAlert_stable_def Let_def spec_isEligible_def)

text \<open>
  Claim C4, as stated, fails on the STABLE program, which stores the deadline when the
  alert is recorded. An alert for ADAUSDT is recorded at time 1000000 under a cooldown of
  5 minutes; the cooldown is then set to 1 minute; one minute after the alert the key is
  still in cooldown, where the live configuration makes it eligible.
\<close>

theorem cooldown_counterexample:
  "fst (isInCooldown
          (recordAlert_stable initRuntimeState \<lparr>cooldowns = Map.empty\<rparr> ''ADAUSDT''
             \<lparr>ss_symbol = ''ADAUSDT'', totalVolumeUSD = 1400000, buyVolumeUSD = 1200000,
              sellVolumeUSD = 200000, buyDominance = 600 / 7, sellDominance = 100 / 7,
              ss_dominantSide = Buy, ss_priceChange = 8 / 10, ss_tradeCount = 2,
              ss_windowSeconds = 180\<rparr>
             1000000)
          ''ADAUSDT'' Buy 1060000)
   \<and> map_option cooldownMinutes
        (getSymbolConfig
           (fst (setSymbolParam initRuntimeState ''ADAUSDT'' ''cooldownMinutes'' ''1'' (Some 1)))
           ''ADAUSDT'') = Some 1
   \<and> spec_isEligible 1000000 1 1060000"
  by (simp add: isInCooldown_def recordAlert_stable_def getSymbolConfig_def setSymbolParam_def
        initRuntimeState_def RuntimeConfig_new_def SYMBOL_CONFIGS_def validParams_def
        param_set_def spec_isEligible_def Let_def)

text \<open>
  Claim C4, amended. MVP Enhanced program: for every symbol with a configuration, after
  \<^verbatim>\<open>recordAlert\<close> for a symbol and side at a time \<open>T\<close> other than 0, \<^verbatim>\<open>canAlert\<close>
  for that symbol and side at time \<open>t\<close> is true exactly when \<open>t\<close> is at least \<open>T\<close> plus
  the \<^verbatim>\<open>cooldownMinutes\<close> of the configuration read at the check, so a change of the
  configuration applies to a cooldown in progress. STABLE program: \<^verbatim>\<open>isInCooldown\<close>
  is true exactly when \<open>t\<close> is before \<open>T\<close> plus the \<^verbatim>\<open>cooldownMinutes\<close> of the
  configuration read when the alert was recorded; a later change of the configuration
  does not move the deadline.
\<close>

theorem cooldown_window:
  "(getSymbolConfig rc sy = Some config \<and> T \<noteq> 0 \<and> dominantSide st' = dominantSide st \<longrightarrow>
      canAlert rc (recordAlert_mvp cm sy st T) sy st' t
        = spec_isEligible T (cooldownMinutes config) t)
   \<and> (getSymbolConfig rc0 sy = Some config0 \<and> T + cooldownMinutes config0 * 60 * 1000 \<noteq> 0 \<longrightarrow>
      fst (isInCooldown (recordAlert_stable rc0 cm' sy ss T) sy (ss_dominantSide ss) t)
        = (\<not> spec_isEligible T (cooldownMinutes config0) t))"
  using canAlert_after_record [of rc sy config T st' st cm t]
    isInCooldown_after_record [of rc0 sy config0 T cm' ss t]
  by blast

theorem cooldown_window_witness:
  "\<not> canAlert (RuntimeConfig_new SYMBOL_CONFIGS ADVANCED_FILTERS_mvp)
        (recordAlert_mvp \<lparr>lastAlerts = Map.empty\<rparr> ''ADAUSDT''
           \<lparr>buyVolume = 1200000, sellVolume = 200000, totalVolume = 1400000, dominantSide = Buy,
            dominance = 600 / 7, priceChange = 8 / 10, priceRange = 4 / 1000, duration = 60,
            tradeCount = 2, stats_lastPrice = Some (504 / 1000), stats_highPrice = Some (504 / 1000),
            stats_lowPrice = Some (5 / 10)\<rparr> 1000000)
        ''ADAUSDT''
        \<lparr>buyVolume = 1200000, sellVolume = 200000, totalVolume = 1400000, dominantSide = Buy,
         dominance = 600 / 7, priceChange = 8 / 10, priceRange = 4 / 1000, duration = 60,
         tradeCount = 2, stats_lastPrice = Some (504 / 1000), stats_highPrice = Some (504 / 1000),
         stats_lowPrice = Some (5 / 10)\<rparr> 1299999
   \<and> canAlert (RuntimeConfig_new SYMBOL_CONFIGS ADVANCED_FILTERS_mvp)
        (recordAlert_mvp \<lparr>lastAlerts = Map.empty\<rparr> ''ADAUSDT''
           \<lparr>buyVolume = 1200000, sellVolume = 200000, totalVolume = 1400000, dominantSide = Buy,
            dominance = 600 / 7, priceChange = 8 / 10, priceRange = 4 / 1000, duration = 60,
            tradeCount = 2, stats_lastPrice = Some (504 / 1000), stats_highPrice = Some (504 / 1000),
            stats_lowPrice = Some (5 / 10)\<rparr> 1000000)
        ''ADAUSDT''
        \<lparr>buyVolume = 1200000, sellVolume = 200000, totalVolume = 1400000, dominantSide = Buy,
         dominance = 600 / 7, priceChange = 8 / 10, priceRange = 4 / 1000, duration = 60,
         tradeCount = 2, stats_lastPrice = Some (504 / 1000), stats_highPrice = Some (504 / 1000),
         stats_lowPrice = Some (5 / 10)\<rparr> 1300000
   \<and> canAlert
        (fst (RuntimeConfig_set (RuntimeConfig_new SYMBOL_CONFIGS ADVANCED_FILTERS_mvp)
                ''ADAUSDT'' ''cooldownMinutes'' ''1'' (Some 1)))
        (recordAlert_mvp \<lparr>lastAlerts = Map.empty\<rparr> ''ADAUSDT''
           \<lparr>buyVolume = 1200000, sellVolume = 200000, totalVolume = 1400000, dominantSide = Buy,
            dominance = 600 / 7, priceChange = 8 / 10, priceRange = 4 / 1000, duration = 60,
            tradeCount = 2, stats_lastPrice = Some (504 / 1000), stats_highPrice = Some (504 / 1000),
            stats_lowPrice = Some (5 / 10)\<rparr> 1000000)
        ''ADAUSDT''
        \<lparr>buyVolume = 1200000, sellVolume = 200000, totalVolume = 1400000, dominantSide = Buy,
         dominance = 600 / 7, priceChange = 8 / 10, priceRange = 4 / 1000, duration = 60,
         tradeCount = 2, stats_lastPrice = Some (504 / 1000), stats_highPrice = Some (504 / 1000),
         stats_lowPrice = Some (5 / 10)\<rparr> 1060000
   \<and> fst (isInCooldown
          (recordAlert_stable initRuntimeState \<lparr>cooldowns = Map.empty\<rparr> ''ADAUSDT''
             \<lparr>ss_symbol = ''ADAUSDT'', totalVolumeUSD = 1400000, buyVolumeUSD = 1200000,
              sellVolumeUSD = 200000, buyDominance = 600 / 7, sellDominance = 100 / 7,
              ss_dominantSide = Buy, ss_priceChange = 8 / 10, ss_tradeCount = 2,
              ss_windowSeconds = 180\<rparr>
             1000000)
          ''ADAUSDT'' Buy 1299999)
   \<and> \<not> fst (isInCooldown
          (recordAlert_stable initRuntimeState \<lparr>cooldowns = Map.empty\<rparr> ''ADAUSDT''
             \<lparr>ss_symbol = ''ADAUSDT'', totalVolumeUSD = 1400000, buyVolumeUSD = 1200000,
              sellVolumeUSD = 200000, buyDominance = 600 / 7, sellDominance = 100 / 7,
              ss_dominantSide = Buy, ss_priceChange = 8 / 10, ss_tradeCount = 2,
              ss_windowSeconds = 180\<rparr>
             1000000)
          ''ADAUSDT'' Buy 1300000)"
proof -
  let ?rc = "RuntimeConfig_new SYMBOL_CONFIGS ADVANCED_FILTERS_mvp"
  let ?rc1 = "fst (RuntimeConfig_set ?rc ''ADAUSDT'' ''cooldownMinutes'' ''1'' (Some 1))"
  let ?c = "\<lparr>minVolumeUSD = 1000000, minDominance = 65, minPriceChange = 6 / 10,
              cooldownMinutes = 5, enabled = True\<rparr>"
  let ?st = "\<lparr>buyVolume = 1200000, sellVolume = 200000, totalVolume = 1400000, dominantSide = Buy,
         dominance = 600 / 7, priceChange = 8 / 10, priceRange = 4 / 1000, duration = 60,
         tradeCount = 2, stats_lastPrice = Some (504 / 1000), stats_highPrice = Some (504 / 1000),
         stats_lowPrice = Some (5 / 10)\<rparr>"
  let ?ss = "\<lparr>ss_symbol = ''ADAUSDT'', totalVolumeUSD = 1400000, buyVolumeUSD = 1200000,
              sellVolumeUSD = 200000, buyDominance = 600 / 7, sellDominance = 100 / 7,
              ss_dominantSide = Buy, ss_priceChange = 8 / 10, ss_tradeCount = 2,
              ss_windowSeconds = 180\<rparr>"
  have g: "getSymbolConfig ?rc ''ADAUSDT'' = Some ?c" "getSymbolConfig initRuntimeState ''ADAUSDT'' = Some ?c"
    by (simp_all add: getSymbolConfig_def store_ADA)
  have g1: "getSymbolConfig ?rc1 ''ADAUSDT'' = Some (?c\<lparr>cooldownMinutes := 1\<rparr>)"
    by (simp add: getSymbolConfig_def set_success [OF store_ADA(1)] validParams_def param_set_def)
  note a = cooldown_window [of ?rc "''ADAUSDT''" ?c 1000000 ?st ?st "\<lparr>lastAlerts = Map.empty\<rparr>"
             1299999 initRuntimeState ?c "\<lparr>cooldowns = Map.empty\<rparr>" ?ss]
  note b = cooldown_window [of ?rc "''ADAUSDT''" ?c 1000000 ?st ?st "\<lparr>lastAlerts = Map.empty\<rparr>"
             1300000 initRuntimeState ?c "\<lparr>cooldowns = Map.empty\<rparr>" ?ss]
  note c = cooldown_window [of ?rc1 "''ADAUSDT''" "?c\<lparr>cooldownMinutes := 1\<rparr>" 1000000 ?st ?st
             "\<lparr>lastAlerts = Map.empty\<rparr>"
             1060000 initRuntimeState ?c "\<lparr>cooldowns = Map.empty\<rparr>" ?ss]
  show ?thesis using a b c g g1 by (simp add: spec_isEligible_def)
qed

section \<open>Properties of the aggression-decay filters\<close>

lemma shouldAllowEntry_insufficient:
  "hist sy = None \<or> (\<exists>h. hist sy = Some h \<and> real (length h) < minCandles config) \<Longrightarrow>
   allowed (shouldAllowEntry config hist sy b s r)"
  by (auto simp: shouldAllowEntry_def)

lemma shouldAllowEntry_disabled:
  "\<not> ad_enabled config \<Longrightarrow> allowed (shouldAllowEntry config hist sy b s r)"
  by (simp add: shouldAllowEntry_def)

lemma shouldAllowEntry_no_volume:
  "ad_enabled config \<Longrightarrow> hist sy = Some h \<Longrightarrow> minCandles config \<le> real (length h) \<Longrightarrow>
   b + s = 0 \<Longrightarrow> \<not> allowed (shouldAllowEntry config hist sy b s r)"
  by (simp add: shouldAllowEntry_def)

lemma average_pos:
  assumes "h \<noteq> []" "\<forall>x\<in>set h. 0 < normalizedAggression x"
  shows "0 < spec_average (map normalizedAggression h)"
proof -
  have "0 < sum_list (map normalizedAggression h)"
    using assms by (induction h) (auto intro: add_pos_nonneg sum_list_nonneg' less_imp_le)
  then show ?thesis using assms(1) by (simp add: spec_average_def)
qed

lemma shouldAllowEntry_active:
  assumes "ad_enabled config" "hist sy = Some h" "minCandles config \<le> real (length h)"
    and "b + s \<noteq> 0" "0 \<le> r" "h \<noteq> []" "\<forall>x\<in>set h. 0 < normalizedAggression x"
  shows "allowed (shouldAllowEntry config hist sy b s r)
     = spec_decay_allows (spec_aggression b s r) (spec_average (map normalizedAggression h))
         (decayThreshold config)"
proof -
  have avg: "0 < spec_average (map normalizedAggression h)" using average_pos assms(6,7) by blast
  have cur: "(if r > 0 then max b s / r else max b s) = spec_aggression b s r"
    using assms(5) by (auto simp: spec_aggression_def)
  show ?thesis
    using assms(1-4) avg
    by (simp add: shouldAllowEntry_def Let_def fold_add_sum cur spec_decay_allows_def
          spec_average_def)
qed

lemma recordAggression_positive:
  assumes "\<forall>h x. hist sy' = Some h \<longrightarrow> x \<in> set h \<longrightarrow> 0 < normalizedAggression x"
    and "0 \<le> b" "0 \<le> s"
    and "recordAggression config hist sy ts b s r sy' = Some h" "x \<in> set h"
  shows "0 < normalizedAggression x"
proof -
  have dom: "b + s \<noteq> 0 \<Longrightarrow> 0 < max b s" using assms(2,3) by (auto simp: max_def)
  then have na: "b + s \<noteq> 0 \<Longrightarrow> 0 < (if r > 0 then max b s / r else max b s)" by simp
  show ?thesis
    using assms(1,4,5) na
    by (auto simp: recordAggression_def Let_def split: if_splits option.splits)
qed

lemma checkDecay_active:
  assumes "ad_enabled config" "hist sy = Some h" "minCandles config \<le> real (length h)"
    and "h \<noteq> []" "spec_average (map candle_dominance h) \<noteq> 0"
  shows "passed (checkDecay config hist sy d)
     = (\<not> spec_decay_allows d (spec_average (map candle_dominance h)) (decayThreshold config))"
  using assms
  by (simp add: checkDecay_def Let_def fold_add_sum spec_decay_allows_def spec_average_def)

lemma checkDecay_insufficient:
  "(case hist sy of None \<Rightarrow> 0 | Some h \<Rightarrow> real (length h)) < minCandles config \<Longrightarrow>
   passed (checkDecay config hist sy d)"
  by (auto simp: checkDecay_def Let_def split: option.splits)

section \<open>Claim C3: the aggression-decay rule\<close>

text \<open>
  Claim C3, as stated, fails on the STABLE program, whose \<^verbatim>\<open>checkDecay\<close> compares
  dominance percentages and denies when the ratio is below the threshold. With the
  default configuration and two past candles of dominance 80, a current dominance of 60
  gives the ratio 0.75, below 0.85: the rule of the claim allows the entry and
  \<^verbatim>\<open>checkDecay\<close> does not pass it.
\<close>

theorem decay_counterexample:
  "\<not> passed (checkDecay aggressionDecay_default
        [''ADAUSDT'' \<mapsto> [\<lparr>candle_timestamp = 1000000, candle_dominance = 80\<rparr>,
                          \<lparr>candle_timestamp = 1400000, candle_dominance = 80\<rparr>]]
        ''ADAUSDT'' 60)
   \<and> spec_decay_allows 60 (spec_average [80, 80]) (decayThreshold aggressionDecay_default)"
  by (simp add: checkDecay_def aggressionDecay_default_def Let_def spec_decay_allows_def
        spec_average_def)

text \<open>
  Claim C3, amended. MVP Enhanced program: \<^verbatim>\<open>shouldAllowEntry\<close> allows the entry when
  the filter is disabled, when the symbol has no history, and when its history has fewer
  than \<^verbatim>\<open>minCandles\<close> entries. When the filter is enabled and the history has at least
  \<^verbatim>\<open>minCandles\<close> entries, at least one, all positive (as \<^verbatim>\<open>recordAggression\<close> records
  them from volumes that are not negative), then for a current total volume other than
  zero and a price range that is not negative the entry is allowed exactly when the
  current aggression (dominant volume over the range, or the raw dominant volume when
  the range is zero) over the average of the history is below \<^verbatim>\<open>decayThreshold\<close>; for
  a current total volume of zero the entry is denied. STABLE program: \<^verbatim>\<open>checkDecay\<close>
  passes while the symbol has fewer than \<^verbatim>\<open>minCandles\<close> candles; with at least
  \<^verbatim>\<open>minCandles\<close> candles, at least one, and an average past dominance other than zero
  it passes exactly when the current dominance over the average past dominance is not
  below \<^verbatim>\<open>decayThreshold\<close>.
\<close>

theorem aggression_decay_rule:
  "(\<not> ad_enabled config \<longrightarrow> allowed (shouldAllowEntry config hist sy b s r))
   \<and> (hist sy = None \<longrightarrow> allowed (shouldAllowEntry config hist sy b s r))
   \<and> (hist sy = Some h \<and> real (length h) < minCandles config \<longrightarrow>
        allowed (shouldAllowEntry config hist sy b s r))
   \<and> (ad_enabled config \<and> hist sy = Some h \<and> minCandles config \<le> real (length h)
        \<and> b + s \<noteq> 0 \<and> 0 \<le> r \<and> h \<noteq> [] \<and> (\<forall>x\<in>set h. 0 < normalizedAggression x) \<longrightarrow>
        allowed (shouldAllowEntry config hist sy b s r)
          = spec_decay_allows (spec_aggression b s r)
              (spec_average (map normalizedAggression h)) (decayThreshold config))
   \<and> (ad_enabled config \<and> hist sy = Some h \<and> minCandles config \<le> real (length h)
        \<and> b + s = 0 \<longrightarrow>
        \<not> allowed (shouldAllowEntry config hist sy b s r))
   \<and> ((\<forall>h x. hist sy = Some h \<longrightarrow> x \<in> set h \<longrightarrow> 0 < normalizedAggression x)
        \<and> 0 \<le> b \<and> 0 \<le> s
        \<and> recordAggression config hist sy' ts b s r sy = Some h' \<and> x' \<in> set h' \<longrightarrow>
        0 < normalizedAggression x')
   \<and> ((case chist sy of None \<Rightarrow> 0 | Some c \<Rightarrow> real (length c)) < minCandles config \<longrightarrow>
        passed (checkDecay config chist sy d))
   \<and> (ad_enabled config \<and> chist sy = Some ch \<and> minCandles config \<le> real (length ch)
        \<and> ch \<noteq> [] \<and> spec_average (map candle_dominance ch) \<noteq> 0 \<longrightarrow>
        passed (checkDecay config chist sy d)
          = (\<not> spec_decay_allows d (spec_average (map candle_dominance ch))
                 (decayThreshold config)))"
proof (intro conjI impI, goal_cases)
  case 1 then show ?case by (rule shouldAllowEntry_disabled)
next
  case 2 then show ?case by (simp add: shouldAllowEntry_insufficient)
next
  case 3 then show ?case by (simp add: shouldAllowEntry_insufficient)
next
  case 4 then show ?case using shouldAllowEntry_active [of config hist sy h b s r] by (elim conjE)
next
  case 5 then show ?case using shouldAllowEntry_no_volume [of config hist sy h b s r] by (elim conjE)
next
  case 6 then show ?case
    using recordAggression_positive [of hist sy b s config sy' ts r h' x'] by (elim conjE)
next
  case 7 then show ?case by (rule checkDecay_insufficient)
next
  case 8 then show ?case using checkDecay_active [of config chist sy ch d] by (elim conjE)
qed

theorem aggression_decay_rule_witness:
  "allowed (shouldAllowEntry aggressionDecay_default
       [''ADAUSDT'' \<mapsto> [\<lparr>ag_timestamp = 1000000, normalizedAggression = 1000\<rparr>,
                         \<lparr>ag_timestamp = 1060000, normalizedAggression = 3000\<rparr>]]
       ''ADAUSDT'' 1200 200 1)
   \<and> \<not> allowed (shouldAllowEntry aggressionDecay_default
       [''ADAUSDT'' \<mapsto> [\<lparr>ag_timestamp = 1000000, normalizedAggression = 1000\<rparr>,
                         \<lparr>ag_timestamp = 1060000, normalizedAggression = 3000\<rparr>]]
       ''ADAUSDT'' 1800 200 1)
   \<and> allowed (shouldAllowEntry aggressionDecay_default
       [''ADAUSDT'' \<mapsto> [\<lparr>ag_timestamp = 1000000, normalizedAggression = 1000\<rparr>]]
       ''ADAUSDT'' 1800 200 1)
   \<and> \<not> allowed (shouldAllowEntry aggressionDecay_default
       [''ADAUSDT'' \<mapsto> [\<lparr>ag_timestamp = 1000000, normalizedAggression = 1000\<rparr>,
                         \<lparr>ag_timestamp = 1060000, normalizedAggression = 3000\<rparr>]]
       ''ADAUSDT'' 0 0 1)
   \<and> recordAggression aggressionDecay_default Map.empty ''ADAUSDT'' 1000000 1200 200 1 ''ADAUSDT''
       = Some [\<lparr>ag_timestamp = 1000000, normalizedAggression = 1200\<rparr>]
   \<and> passed (checkDecay aggressionDecay_default
        [''ADAUSDT'' \<mapsto> [\<lparr>candle_timestamp = 1000000, candle_dominance = 80\<rparr>,
                          \<lparr>candle_timestamp = 1400000, candle_dominance = 80\<rparr>]]
        ''ADAUSDT'' 80)
   \<and> passed (checkDecay aggressionDecay_default Map.empty ''ADAUSDT'' 60)"
proof -
  let ?h = "[\<lparr>ag_timestamp = 1000000, normalizedAggression = 1000\<rparr>,
             \<lparr>ag_timestamp = 1060000, normalizedAggression = 3000\<rparr>]"
  let ?h1 = "[\<lparr>ag_timestamp = 1000000, normalizedAggression = 1000\<rparr>]"
  let ?e = "\<lparr>ag_timestamp = 1000000, normalizedAggression = 1200\<rparr>"
  let ?ch = "[\<lparr>candle_timestamp = 1000000, candle_dominance = 80\<rparr>,
              \<lparr>candle_timestamp = 1400000, candle_dominance = 80\<rparr>]"
  note a = aggression_decay_rule [of aggressionDecay_default "[''ADAUSDT'' \<mapsto> ?h]" "''ADAUSDT''"
             1200 200 1 ?h "''ADAUSDT''" 0 "[]" ?e "[''ADAUSDT'' \<mapsto> ?ch]" 80 ?ch]
  note b = aggression_decay_rule [of aggressionDecay_default "[''ADAUSDT'' \<mapsto> ?h]" "''ADAUSDT''"
             1800 200 1 ?h "''ADAUSDT''" 0 "[]" ?e "[''ADAUSDT'' \<mapsto> ?ch]" 80 ?ch]
  note c = aggression_decay_rule [of aggressionDecay_default "[''ADAUSDT'' \<mapsto> ?h1]" "''ADAUSDT''"
             1800 200 1 ?h1 "''ADAUSDT''" 0 "[]" ?e "[''ADAUSDT'' \<mapsto> ?ch]" 80 ?ch]
  note d = aggression_decay_rule [of aggressionDecay_default "[''ADAUSDT'' \<mapsto> ?h]" "''ADAUSDT''"
             0 0 1 ?h "''ADAUSDT''" 0 "[]" ?e "Map.empty" 60 ?ch]
  note e = aggression_decay_rule [of aggressionDecay_default "Map.empty" "''ADAUSDT''"
             1200 200 1 ?h "''ADAUSDT''" 1000000 "[?e]" ?e "Map.empty" 60 ?ch]
  have r: "recordAggression aggressionDecay_default Map.empty ''ADAUSDT'' 1000000 1200 200 1 ''ADAUSDT''
       = Some [?e]"
    by (simp add: recordAggression_def aggressionDecay_default_def Let_def)
  show ?thesis using a b c d e r
    by (simp add: aggressionDecay_default_def spec_decay_allows_def spec_aggression_def
          spec_average_def)
qed

section \<open>Properties of the volatility kill-switch\<close>






lemma checkBTC_history:
  "btc_enabled config \<Longrightarrow> response p = Some cur \<Longrightarrow>
   btcPriceHistory (fst (checkBTC config p st)) = window_after config p cur st"
  by (auto simp: checkBTC_def Let_def generateBTCAlert_def window_after_def)




section \<open>Claim C5: the volatility kill-switch\<close>




section \<open>Properties of the signal engines\<close>


lemma shouldAlert_no_config:
  "getSymbolConfig rc sy = None \<Longrightarrow>
   shouldAlert rc fs clk sy (Some st) = \<lparr>allow = False, reason = SymbolDisabled, consulted = []\<rparr>"
  by (simp add: shouldAlert_def)

lemma shouldAlert_threshold_fails:
  assumes "getSymbolConfig rc sy = Some config" "\<not> thresholds_pass config st"
  shows "\<not> allow (shouldAlert rc fs clk sy (Some st))"
    and "consulted (shouldAlert rc fs clk sy (Some st)) = []"
    and "reason (shouldAlert rc fs clk sy (Some st)) =
          (if \<not> enabled config then SymbolDisabled
           else if totalVolume st < minVolumeUSD config then VolumeTooLow
           else if dominance st < minDominance config then DominanceTooLow
           else if \<bar>priceChange st\<bar> < minPriceChange config then PriceChangeTooSmall
           else if dominantSide st = Buy \<and> priceChange st < 0 then BuyDominanceButPriceDown
           else SellDominanceButPriceUp)"
  using assms
  by (auto simp: shouldAlert_def thresholds_pass_def not_le)




lemma shouldAlert_mismatch:
  assumes "(dominantSide st = Buy \<and> priceChange st < 0) \<or> (dominantSide st = Sell \<and> priceChange st > 0)"
  shows "\<not> allow (shouldAlert rc fs clk sy (Some st))"
    and "consulted (shouldAlert rc fs clk sy (Some st)) = []"
proof -
  have "\<not> allow (shouldAlert rc fs clk sy (Some st)) \<and> consulted (shouldAlert rc fs clk sy (Some st)) = []"
  proof (cases "getSymbolConfig rc sy")
    case None
    then show ?thesis by (simp add: shouldAlert_no_config)
  next
    case (Some config)
    have "\<not> thresholds_pass config st" using assms by (auto simp: thresholds_pass_def)
    then show ?thesis using shouldAlert_threshold_fails[OF Some] by simp
  qed
  then show "\<not> allow (shouldAlert rc fs clk sy (Some st))"
    and "consulted (shouldAlert rc fs clk sy (Some st)) = []" by simp_all
qed

lemma checkSignal_cases:
  assumes "getSymbolConfig rc (ss_symbol st) = Some config" "enabled config"
  shows "fst (checkSignal rc fs clk st) =
     (if btc_paused fs clk
      then \<lparr>signal = False, reason_stable = BtcVolatilityPauseReason,
            consulted_stable = [BtcVolatility]\<rparr>
      else if stop_paused fs clk
      then \<lparr>signal = False, reason_stable = StopClusterPauseReason,
            consulted_stable = [BtcVolatility, StopCluster]\<rparr>
      else if \<not> time_allowed fs clk
      then \<lparr>signal = False,
            reason_stable = Filter (fr_reason (isTradingAllowed_time (timeConfig_stable fs)
                                                 (clk_day clk) (clk_hour clk))),
            consulted_stable = [BtcVolatility, StopCluster, TimeBased]\<rparr>
      else if totalVolumeUSD st < minVolumeUSD config
      then \<lparr>signal = False, reason_stable = VolumeTooLow,
            consulted_stable = [BtcVolatility, StopCluster, TimeBased]\<rparr>
      else if dominance_stable st < minDominance config
      then \<lparr>signal = False, reason_stable = DominanceTooLow,
            consulted_stable = [BtcVolatility, StopCluster, TimeBased]\<rparr>
      else if ss_priceChange st < minPriceChange config
      then \<lparr>signal = False, reason_stable = PriceChangeTooSmall,
            consulted_stable = [BtcVolatility, StopCluster, TimeBased]\<rparr>
      else if \<not> decay_passed fs st
      then \<lparr>signal = False,
            reason_stable = Aggression (check_why (checkDecay (aggressionConfig_stable fs)
                               (aggressionFilter_stable fs) (ss_symbol st) (dominance_stable st))),
            consulted_stable = [BtcVolatility, StopCluster, TimeBased, AggressionDecay]\<rparr>
      else \<lparr>signal = True, reason_stable = AllFiltersPassed,
            consulted_stable = [BtcVolatility, StopCluster, TimeBased, AggressionDecay]\<rparr>)"
  using assms
  by (simp add: checkSignal_def Let_def btc_paused_def stop_paused_def time_allowed_def
        decay_passed_def)

lemma checkSignal_signal_iff:
  assumes "getSymbolConfig rc (ss_symbol st) = Some config" "enabled config"
  shows "signal (fst (checkSignal rc fs clk st)) =
           (\<not> btc_paused fs clk \<and> \<not> stop_paused fs clk \<and> time_allowed fs clk
            \<and> thresholds_pass_stable config st \<and> decay_passed fs st)"
  unfolding checkSignal_cases[OF assms] thresholds_pass_stable_def by (simp add: not_less)




lemma eval_defaults:
  "getSymbolConfig (RuntimeConfig_new SYMBOL_CONFIGS ADVANCED_FILTERS_mvp) ''ADAUSDT''
     = Some \<lparr>minVolumeUSD = 1000000, minDominance = 65, minPriceChange = 6 / 10,
              cooldownMinutes = 5, enabled = True\<rparr>"
  "getSymbolConfig initRuntimeState ''ADAUSDT''
     = Some \<lparr>minVolumeUSD = 1000000, minDominance = 65, minPriceChange = 6 / 10,
              cooldownMinutes = 5, enabled = True\<rparr>"
  by (simp_all add: getSymbolConfig_def store_ADA)

section \<open>Claim C2: the order of the checks\<close>




section \<open>Claim C8: dominant side against price direction\<close>

text \<open>
  Claim C8, as stated, fails on the STABLE program, which has no such check and whose
  price change is not signed. A sell of 1200000 at 0.500 followed by a buy of 201600 at
  0.504: the snapshot is sell-dominant with a price change of 0.8, and \<^verbatim>\<open>checkSignal\<close>
  signals.
\<close>

theorem mismatch_counterexample:
  "map_option (\<lambda>st. signal (fst (checkSignal initRuntimeState filterStack_new_stable
                     \<lparr>clk_stop = 1060500, clk_day = 3, clk_hour = 10, clk_btc = 1060500\<rparr> st)))
     (getStats_stable ''ADAUSDT'' 1060500
        (feed_stable
           [(''ADAUSDT'', \<lparr>ev_T = 1000000, ev_p = 1 / 2, ev_q = 2400000, ev_m = True\<rparr>, 1000500),
            (''ADAUSDT'', \<lparr>ev_T = 1060000, ev_p = 504 / 1000, ev_q = 400000, ev_m = False\<rparr>, 1060500)]
           (TradeAggregator_new_stable 180))) = Some True
   \<and> map_option ss_dominantSide
     (getStats_stable ''ADAUSDT'' 1060500
        (feed_stable
           [(''ADAUSDT'', \<lparr>ev_T = 1000000, ev_p = 1 / 2, ev_q = 2400000, ev_m = True\<rparr>, 1000500),
            (''ADAUSDT'', \<lparr>ev_T = 1060000, ev_p = 504 / 1000, ev_q = 400000, ev_m = False\<rparr>, 1060500)]
           (TradeAggregator_new_stable 180))) = Some Sell
   \<and> map_option ss_priceChange
     (getStats_stable ''ADAUSDT'' 1060500
        (feed_stable
           [(''ADAUSDT'', \<lparr>ev_T = 1000000, ev_p = 1 / 2, ev_q = 2400000, ev_m = True\<rparr>, 1000500),
            (''ADAUSDT'', \<lparr>ev_T = 1060000, ev_p = 504 / 1000, ev_q = 400000, ev_m = False\<rparr>, 1060500)]
           (TradeAggregator_new_stable 180))) = Some (8 / 10)"
proof -
  have g: "getStats_stable ''ADAUSDT'' 1060500
        (feed_stable
           [(''ADAUSDT'', \<lparr>ev_T = 1000000, ev_p = 1 / 2, ev_q = 2400000, ev_m = True\<rparr>, 1000500),
            (''ADAUSDT'', \<lparr>ev_T = 1060000, ev_p = 504 / 1000, ev_q = 400000, ev_m = False\<rparr>, 1060500)]
           (TradeAggregator_new_stable 180))
     = Some \<lparr>ss_symbol = ''ADAUSDT'', totalVolumeUSD = 1401600, buyVolumeUSD = 201600,
              sellVolumeUSD = 1200000, buyDominance = 201600 / 1401600 * 100,
              sellDominance = 1200000 / 1401600 * 100,
              ss_dominantSide = Sell, ss_priceChange = 8 / 10, ss_tradeCount = 2,
              ss_windowSeconds = 180\<rparr>"
    by (simp add: getStats_stable_def feed_stable_def addTrade_stable_def
        TradeAggregator_new_stable_def Let_def)
  show ?thesis unfolding g
    by (simp add: checkSignal_def isPaused_btc_def isPaused_stop_def isTradingAllowed_time_def
        checkDecay_def dominance_stable_def
        filterStack_new_stable_def btcVolatility_default_stable_def stopCluster_default_def
        timeBased_default_def aggressionDecay_default_def
        BTCVolatilityFilter_new_stable_def getSymbolConfig_def initRuntimeState_def
        RuntimeConfig_new_def SYMBOL_CONFIGS_def Let_def)
qed

text \<open>
  Claim C8, amended. MVP Enhanced program: \<^verbatim>\<open>shouldAlert\<close> denies every snapshot that
  is buy-dominant with a negative price change or sell-dominant with a positive price
  change, and consults no filter of the stack for it. STABLE program: \<^verbatim>\<open>checkSignal\<close>
  has no such check; the price change of a snapshot of trades at positive prices is never
  negative, and a snapshot of an enabled symbol that meets the volume, dominance and
  price-change thresholds while no filter denies is signalled whichever side dominates.
\<close>

theorem direction_mismatch:
  "((dominantSide st = Buy \<and> priceChange st < 0) \<or> (dominantSide st = Sell \<and> priceChange st > 0) \<longrightarrow>
      \<not> allow (shouldAlert rc fs clk sy (Some st))
      \<and> consulted (shouldAlert rc fs clk sy (Some st)) = [])
   \<and> (trades_stable agg0 = Map.empty \<and> (\<forall>x\<in>set evs. 0 < ev_p (fst (snd x)))
        \<and> getStats_stable sy' now (feed_stable evs agg0) = Some ss \<longrightarrow>
      0 \<le> ss_priceChange ss)
   \<and> (getSymbolConfig rc (ss_symbol ss') = Some config \<and> enabled config
        \<and> \<not> btc_paused fs' clk \<and> \<not> stop_paused fs' clk \<and> time_allowed fs' clk
        \<and> thresholds_pass_stable config ss' \<and> decay_passed fs' ss' \<longrightarrow>
      signal (fst (checkSignal rc fs' clk ss')))"
proof (intro conjI impI, goal_cases)
  case 1 then show ?case using shouldAlert_mismatch(1) [of st rc fs clk sy] by blast
next
  case 2 then show ?case using shouldAlert_mismatch(2) [of st rc fs clk sy] by blast
next
  case 3 then show ?case using priceChange_stable(2) [of agg0 evs sy' now ss] by blast
next
  case 4 then show ?case using checkSignal_signal_iff [of rc ss' config fs' clk] by blast
qed

theorem direction_mismatch_witness:
  "\<not> allow (shouldAlert (RuntimeConfig_new SYMBOL_CONFIGS ADVANCED_FILTERS_mvp) filterStack_new_mvp
       \<lparr>clk_stop = 1060500, clk_day = 3, clk_hour = 10, clk_btc = 1060500\<rparr> ''ADAUSDT''
       (Some \<lparr>buyVolume = 201600, sellVolume = 1200000, totalVolume = 1401600, dominantSide = Sell,
              dominance = 1200000 / 1401600 * 100, priceChange = 8 / 10, priceRange = 4 / 1000,
              duration = 60, tradeCount = 2, stats_lastPrice = Some (504 / 1000),
              stats_highPrice = Some (504 / 1000), stats_lowPrice = Some (5 / 10)\<rparr>))
   \<and> consulted (shouldAlert (RuntimeConfig_new SYMBOL_CONFIGS ADVANCED_FILTERS_mvp) filterStack_new_mvp
       \<lparr>clk_stop = 1060500, clk_day = 3, clk_hour = 10, clk_btc = 1060500\<rparr> ''ADAUSDT''
       (Some \<lparr>buyVolume = 201600, sellVolume = 1200000, totalVolume = 1401600, dominantSide = Sell,
              dominance = 1200000 / 1401600 * 100, priceChange = 8 / 10, priceRange = 4 / 1000,
              duration = 60, tradeCount = 2, stats_lastPrice = Some (504 / 1000),
              stats_highPrice = Some (504 / 1000), stats_lowPrice = Some (5 / 10)\<rparr>)) = []
   \<and> \<not> allow (shouldAlert (RuntimeConfig_new SYMBOL_CONFIGS ADVANCED_FILTERS_mvp) filterStack_new_mvp
       \<lparr>clk_stop = 1060500, clk_day = 3, clk_hour = 10, clk_btc = 1060500\<rparr> ''ADAUSDT''
       (Some \<lparr>buyVolume = 1200000, sellVolume = 200000, totalVolume = 1400000, dominantSide = Buy,
              dominance = 600 / 7, priceChange = - (8 / 10), priceRange = 4 / 1000, duration = 60,
              tradeCount = 2, stats_lastPrice = Some (496 / 1000),
              stats_highPrice = Some (5 / 10), stats_lowPrice = Some (496 / 1000)\<rparr>))
   \<and> signal (fst (checkSignal initRuntimeState filterStack_new_stable
       \<lparr>clk_stop = 1060500, clk_day = 3, clk_hour = 10, clk_btc = 1060500\<rparr>
       \<lparr>ss_symbol = ''ADAUSDT'', totalVolumeUSD = 1401600, buyVolumeUSD = 201600,
        sellVolumeUSD = 1200000, buyDominance = 201600 / 1401600 * 100,
        sellDominance = 1200000 / 1401600 * 100,
        ss_dominantSide = Sell, ss_priceChange = 8 / 10, ss_tradeCount = 2,
        ss_windowSeconds = 180\<rparr>))
   \<and> map_option ss_priceChange
     (getStats_stable ''ADAUSDT'' 1060500
        (feed_stable
           [(''ADAUSDT'', \<lparr>ev_T = 1000000, ev_p = 504 / 1000, ev_q = 2400000, ev_m = True\<rparr>, 1000500),
            (''ADAUSDT'', \<lparr>ev_T = 1060000, ev_p = 1 / 2, ev_q = 400000, ev_m = False\<rparr>, 1060500)]
           (TradeAggregator_new_stable 180))) = Some (8 / 10)"
proof -
  let ?rc = "RuntimeConfig_new SYMBOL_CONFIGS ADVANCED_FILTERS_mvp"
  let ?c = "\<lparr>minVolumeUSD = 1000000, minDominance = 65, minPriceChange = 6 / 10,
              cooldownMinutes = 5, enabled = True\<rparr>"
  let ?clk = "\<lparr>clk_stop = 1060500, clk_day = 3, clk_hour = 10, clk_btc = 1060500\<rparr>"
  let ?sellup = "\<lparr>buyVolume = 201600, sellVolume = 1200000, totalVolume = 1401600, dominantSide = Sell,
              dominance = 1200000 / 1401600 * 100, priceChange = 8 / 10, priceRange = 4 / 1000,
              duration = 60, tradeCount = 2, stats_lastPrice = Some (504 / 1000),
              stats_highPrice = Some (504 / 1000), stats_lowPrice = Some (5 / 10)\<rparr>"
  let ?buydown = "\<lparr>buyVolume = 1200000, sellVolume = 200000, totalVolume = 1400000, dominantSide = Buy,
              dominance = 600 / 7, priceChange = - (8 / 10), priceRange = 4 / 1000, duration = 60,
              tradeCount = 2, stats_lastPrice = Some (496 / 1000),
              stats_highPrice = Some (5 / 10), stats_lowPrice = Some (496 / 1000)\<rparr>"
  let ?ss = "\<lparr>ss_symbol = ''ADAUSDT'', totalVolumeUSD = 1401600, buyVolumeUSD = 201600,
        sellVolumeUSD = 1200000, buyDominance = 201600 / 1401600 * 100,
        sellDominance = 1200000 / 1401600 * 100,
        ss_dominantSide = Sell, ss_priceChange = 8 / 10, ss_tradeCount = 2,
        ss_windowSeconds = 180\<rparr>"
  let ?evs = "[(''ADAUSDT'', \<lparr>ev_T = 1000000, ev_p = 504 / 1000, ev_q = 2400000, ev_m = True\<rparr>, 1000500 :: real),
            (''ADAUSDT'', \<lparr>ev_T = 1060000, ev_p = 1 / 2, ev_q = 400000, ev_m = False\<rparr>, 1060500)]"
  note a = direction_mismatch [where st = ?sellup and rc = ?rc and fs = filterStack_new_mvp
      and clk = ?clk and sy = "''ADAUSDT''"]
  note b = direction_mismatch [where st = ?buydown and rc = ?rc and fs = filterStack_new_mvp
      and clk = ?clk and sy = "''ADAUSDT''"]
  note c = direction_mismatch [where rc = initRuntimeState and fs' = filterStack_new_stable
      and clk = ?clk and ss' = ?ss and config = ?c]
  have 1: "\<not> allow (shouldAlert ?rc filterStack_new_mvp ?clk ''ADAUSDT'' (Some ?sellup))"
    "consulted (shouldAlert ?rc filterStack_new_mvp ?clk ''ADAUSDT'' (Some ?sellup)) = []"
    using a by simp_all
  have 2: "\<not> allow (shouldAlert ?rc filterStack_new_mvp ?clk ''ADAUSDT'' (Some ?buydown))"
    using b by simp
  have h: "\<not> btc_paused filterStack_new_stable ?clk" "\<not> stop_paused filterStack_new_stable ?clk"
    "time_allowed filterStack_new_stable ?clk" "thresholds_pass_stable ?c ?ss"
    "decay_passed filterStack_new_stable ?ss"
    by (simp_all add: btc_paused_def stop_paused_def time_allowed_def decay_passed_def
        thresholds_pass_stable_def
        isPaused_btc_def isPaused_stop_def isTradingAllowed_time_def checkDecay_def
        dominance_stable_def filterStack_new_stable_def btcVolatility_default_stable_def
        stopCluster_default_def timeBased_default_def aggressionDecay_default_def
        BTCVolatilityFilter_new_stable_def)
  have g2: "getSymbolConfig initRuntimeState (ss_symbol ?ss) = Some ?c"
    using eval_defaults(2) by simp
  have 3: "signal (fst (checkSignal initRuntimeState filterStack_new_stable ?clk ?ss))"
    using c h g2 by simp
  have 4: "map_option ss_priceChange
     (getStats_stable ''ADAUSDT'' 1060500 (feed_stable ?evs (TradeAggregator_new_stable 180)))
       = Some (8 / 10)"
    by (simp add: getStats_stable_def feed_stable_def addTrade_stable_def
        TradeAggregator_new_stable_def Let_def)
  show ?thesis using 1 2 3 4 by blast
qed

end
